theory Spec2Isabelle
  imports Complex_Main "HOL-Library.AList" "HOL-Library.Sublist"
begin

section \<open>Dates and durations\<close>

text \<open>
  A \<open>datetime\<close> of the source is a naive timestamp with microsecond resolution; it is
  modelled as the number of microseconds on the naive time line. A \<open>timedelta\<close> is a
  number of microseconds. Subtracting two naive datetimes gives the difference of
  their positions. The attribute \<open>.days\<close> of a timedelta is the whole-day component
  of its normal form (seconds and microseconds are kept non-negative), which is the
  floor of the quotient by one day.
\<close>

type_synonym datetime = int
type_synonym timedelta = int

definition timedelta_days :: "int \<Rightarrow> timedelta" where
  "timedelta_days n = n * 86400000000"

definition days :: "timedelta \<Rightarrow> int" where
  "days td = td div 86400000000"

section \<open>Values, errors and the environment\<close>

text \<open>
  \<open>json\<close> is a parsed response body (the literals \<open>NaN\<close> and \<open>Infinity\<close>, which are
  not JSON, are left out, and so is the negative zero). A \<open>cell\<close> is a value of a data
  frame or of a stored row: \<open>Null\<close> stands for \<open>None\<close>, \<open>NaN\<close> and \<open>NaT\<close> (the values
  pandas and SQLite treat as missing), \<open>Num\<close> is a finite number other than the
  negative zero, \<open>NegZero\<close> is the negative zero of floating point, \<open>PInf\<close> and
  \<open>NInf\<close> are the two infinities, \<open>Obj\<close> is any other Python object. A number is
  held with its exact value; it is rounded to a double where arithmetic on float
  columns reads it.
\<close>

datatype json =
  JNull | JBool bool | JInt int | JFloat real | JStr string
  | JArr "json list" | JObj "(string \<times> json) list"

datatype cell =
  Null | Num real | NegZero | PInf | NInf | Text string | Date datetime | Obj json

datatype error =
  SqliteError | HTTPError nat | ConnectionError | JSONDecodeError
  | KeyError | IndexError | TypeError | ValueError | OverflowError

record response =
  status_code :: nat
  body :: "json option"

text \<open>
  A stored table has its declared columns (name and type text, as given to
  \<open>CREATE TABLE\<close>) and its rows in insertion order; a stored row maps lower-cased
  column names to values, a column that is not listed being \<open>NULL\<close>. The database maps
  table names to tables. A connection has the committed state, the state it sees,
  and whether a transaction is open.
\<close>

type_synonym row = "(string \<times> cell) list"

record table =
  tcolumns :: "(string \<times> string) list"
  trows :: "row list"

type_synonym database = "(string \<times> table) list"

record connection =
  committed :: database
  current :: database
  in_transaction :: bool

text \<open>
  A data frame is the ordered list of its columns, each with its name and its
  values, all of one length.
\<close>

type_synonym dataframe = "(string \<times> cell list) list"

text \<open>
  What the program takes from outside itself is collected in one record: the clock
  (one reading for a whole operation), the conversions of the date and time library,
  the text that the database adapter stores for a datetime, Python's \<open>repr\<close> and
  \<open>float\<close> on values the model does not compute them for, the dtype that pandas
  gives a column, the check by which the database engine accepts a row into a table
  (constraints of the schema), the answer of the remote server to each URL, and the
  two values of the module \<open>config\<close>.
\<close>

record env =
  now :: datetime
  timestamp :: "datetime \<Rightarrow> int"
  fromtimestamp :: "real \<Rightarrow> error + datetime"
  strftime :: "datetime \<Rightarrow> string"
  strptime :: "string \<Rightarrow> datetime option"
  adapt_datetime :: "datetime \<Rightarrow> string"
  py_repr :: "json \<Rightarrow> string"
  parse_float :: "string \<Rightarrow> cell option"
  dtype :: "cell list \<Rightarrow> string"
  accepts :: "table \<Rightarrow> row \<Rightarrow> bool"
  requests_get :: "string \<Rightarrow> error + response"
  CRYPTOCURRENCIES :: "string list"
  API_KEY :: string

section \<open>Strings\<close>

definition lower_char :: "char \<Rightarrow> char" where
  "lower_char c =
     (case map_of (zip ''ABCDEFGHIJKLMNOPQRSTUVWXYZ'' ''abcdefghijklmnopqrstuvwxyz'') c of
        Some d \<Rightarrow> d | None \<Rightarrow> c)"

definition lower :: "string \<Rightarrow> string" where
  "lower s = map lower_char s"

fun digits :: "nat \<Rightarrow> string" where
  "digits n =
     (if n < 10 then [''0123456789'' ! n]
      else digits (n div 10) @ [''0123456789'' ! (n mod 10)])"

declare digits.simps [simp del]

definition str_int :: "int \<Rightarrow> string" where
  "str_int i = (if i < 0 then CHR ''-'' # digits (nat (- i)) else digits (nat i))"

text \<open>Byte-wise comparison of texts, the order of SQLite's default collation.\<close>

fun str_less :: "string \<Rightarrow> string \<Rightarrow> bool" where
  "str_less [] [] = False"
| "str_less [] (y # ys) = True"
| "str_less (x # xs) [] = False"
| "str_less (x # xs) (y # ys) =
     ((of_char x :: nat) < of_char y \<or> (x = y \<and> str_less xs ys))"

text \<open>
  \<open>str.replace(old, new)\<close>: every occurrence of \<open>old\<close>, from the left, without
  overlap. The counter holds how many characters of a match are still to be skipped.
\<close>

fun replace_from :: "string \<Rightarrow> string \<Rightarrow> nat \<Rightarrow> string \<Rightarrow> string" where
  "replace_from old new n [] = []"
| "replace_from old new (Suc n) (c # cs) = replace_from old new n cs"
| "replace_from old new 0 (c # cs) =
     (if old \<noteq> [] \<and> take (length old) (c # cs) = old
      then new @ replace_from old new (length old - 1) cs
      else c # replace_from old new 0 cs)"

definition str_replace :: "string \<Rightarrow> string \<Rightarrow> string \<Rightarrow> string" where
  "str_replace old new s = replace_from old new 0 s"

section \<open>The fetch window (coin\_project.py)\<close>

text \<open>
  \<open>get_start_date\<close> reads the clock when no date is stored; the reading is the
  argument \<open>now\<close>.
\<close>

definition get_start_date :: "datetime \<Rightarrow> datetime option \<Rightarrow> datetime" where
  "get_start_date clock newest_date =
     (case newest_date of None \<Rightarrow> clock - timedelta_days 365 | Some d \<Rightarrow> d)"

text \<open>
  \<open>get_limit\<close> tests the truth value of \<open>newest_date\<close>: \<open>None\<close> is false and every
  datetime object is true.
\<close>

definition get_limit :: "datetime option \<Rightarrow> datetime \<Rightarrow> int" where
  "get_limit newest_date end_date =
     (case newest_date of Some d \<Rightarrow> days (end_date - d) | None \<Rightarrow> 2000)"

text \<open>
  The URL of the daily history of one symbol. \<open>construct_api_urls\<close> and
  \<open>fetch_trading_volumes\<close> build it from the same text.
\<close>

definition histoday_url :: "env \<Rightarrow> string \<Rightarrow> int \<Rightarrow> int \<Rightarrow> string" where
  "histoday_url env symbol limit end_timestamp =
     ''https://min-api.cryptocompare.com/data/v2/histoday?fsym='' @ symbol
       @ ''&tsym=USD&limit='' @ str_int limit @ ''&toTs='' @ str_int end_timestamp
       @ ''&api_key='' @ API_KEY env"

definition construct_api_urls :: "env \<Rightarrow> string list \<Rightarrow> int \<Rightarrow> int \<Rightarrow> string list" where
  "construct_api_urls env coins limit end_timestamp =
     map (\<lambda>symbol. histoday_url env symbol limit end_timestamp) coins"

section \<open>The storage adapter (database\_manager.py)\<close>

text \<open>
  \<open>connect\<close> opens the database file: the connection sees the stored state and no
  transaction is open.
\<close>

definition connect :: "database \<Rightarrow> connection" where
  "connect db = \<lparr>committed = db, current = db, in_transaction = False\<rparr>"

definition commit :: "connection \<Rightarrow> connection" where
  "commit c = c\<lparr>committed := current c, in_transaction := False\<rparr>"

definition rollback :: "connection \<Rightarrow> connection" where
  "rollback c = c\<lparr>current := committed c, in_transaction := False\<rparr>"

text \<open>A connection with no open transaction sees the committed state.\<close>

definition idle :: "connection \<Rightarrow> bool" where
  "idle c = (\<not> in_transaction c \<and> current c = committed c)"

text \<open>
  A schema statement (\<open>CREATE TABLE\<close>, \<open>DROP TABLE\<close>) opens no transaction: outside
  a transaction it is committed at once, inside one it belongs to it.
\<close>

definition run_ddl :: "(database \<Rightarrow> database) \<Rightarrow> connection \<Rightarrow> connection" where
  "run_ddl f c =
     (if in_transaction c then c\<lparr>current := f (current c)\<rparr>
      else c\<lparr>committed := f (current c), current := f (current c)\<rparr>)"

definition has_column :: "table \<Rightarrow> string \<Rightarrow> bool" where
  "has_column t c = (lower c \<in> set (map (\<lambda>d. lower (fst d)) (tcolumns t)))"

definition row_get :: "row \<Rightarrow> string \<Rightarrow> cell" where
  "row_get r c = (case map_of r (lower c) of Some v \<Rightarrow> v | None \<Rightarrow> Null)"

text \<open>
  \<open>CREATE TABLE IF NOT EXISTS\<close>: a statement with no column is a syntax error; an
  existing table is left as it is; a new table cannot declare one column name twice.
\<close>

definition create_table ::
  "connection \<Rightarrow> string \<Rightarrow> (string \<times> string) list \<Rightarrow> (error + unit) \<times> connection" where
  "create_table c table_name cols =
     (if cols = [] then (Inl SqliteError, c)
      else case map_of (current c) table_name of
        Some t \<Rightarrow> (Inr (), c)
      | None \<Rightarrow>
          if distinct (map (\<lambda>d. lower (fst d)) cols)
          then (Inr (), run_ddl (\<lambda>db. db @ [(table_name, \<lparr>tcolumns = cols, trows = []\<rparr>)]) c)
          else (Inl SqliteError, c))"

definition table_exists :: "connection \<Rightarrow> string \<Rightarrow> bool" where
  "table_exists c table_name = (map_of (current c) table_name \<noteq> None)"

definition drop_table :: "connection \<Rightarrow> string \<Rightarrow> connection" where
  "drop_table c table_name = commit (run_ddl (AList.delete table_name) c)"

text \<open>
  The order of SQLite on stored values, for \<open>MAX\<close>: numbers before texts, numbers by
  value, texts byte-wise; \<open>NULL\<close> takes no part.
\<close>

fun cell_less :: "cell \<Rightarrow> cell \<Rightarrow> bool" where
  "cell_less (Text a) (Text b) = str_less a b"
| "cell_less (Text a) b = False"
| "cell_less a (Text b) = True"
| "cell_less NInf b = (b \<noteq> NInf)"
| "cell_less a PInf = (a \<noteq> PInf)"
| "cell_less (Num x) (Num y) = (x < y)"
| "cell_less (Num x) NegZero = (x < 0)"
| "cell_less NegZero (Num y) = (0 < y)"
| "cell_less a b = False"

definition sql_max :: "cell list \<Rightarrow> cell" where
  "sql_max vs =
     fold (\<lambda>v m. if v = Null then m else if m = Null then v
                  else if cell_less m v then v else m) vs Null"

text \<open>The truth value of what a query returns: \<open>None\<close>, the empty text and zero are false.\<close>

fun truthy :: "cell \<Rightarrow> bool" where
  "truthy Null = False"
| "truthy (Text s) = (s \<noteq> [])"
| "truthy (Num x) = (x \<noteq> 0)"
| "truthy NegZero = False"
| "truthy v = True"

text \<open>
  \<open>get_newest_date\<close>: \<open>SELECT MAX(date)\<close> fails when the table or its date column is
  absent; \<open>strptime\<close> raises \<open>TypeError\<close> on a value that is no text and \<open>ValueError\<close>
  on a text of another format.
\<close>

definition get_newest_date :: "env \<Rightarrow> connection \<Rightarrow> string \<Rightarrow> error + datetime option" where
  "get_newest_date env c table_name =
     (case map_of (current c) table_name of
        None \<Rightarrow> Inl SqliteError
      | Some t \<Rightarrow>
          if has_column t ''date'' then
            (let result = sql_max (map (\<lambda>r. row_get r ''date'') (trows t)) in
             if truthy result then
               (case result of
                  Text newest_date_str \<Rightarrow>
                    (case strptime env newest_date_str of
                       None \<Rightarrow> Inl ValueError
                     | Some newest_date \<Rightarrow> Inr (Some newest_date))
                | _ \<Rightarrow> Inl TypeError)
             else Inr None)
          else Inl SqliteError)"

text \<open>
  Binding a value to a statement parameter: a datetime goes through the adapter, an
  object of another type cannot be bound.
\<close>

definition bind_value :: "env \<Rightarrow> cell \<Rightarrow> cell option" where
  "bind_value env v =
     (case v of Date d \<Rightarrow> Some (Text (adapt_datetime env d)) | Obj j \<Rightarrow> None | _ \<Rightarrow> Some v)"

fun bind_row :: "env \<Rightarrow> cell list \<Rightarrow> cell list option" where
  "bind_row env [] = Some []"
| "bind_row env (v # vs) =
     (case bind_value env v of
        None \<Rightarrow> None
      | Some b \<Rightarrow> (case bind_row env vs of None \<Rightarrow> None | Some bs \<Rightarrow> Some (b # bs)))"

text \<open>
  One execution of \<open>INSERT INTO t (cols) VALUES (?, ...)\<close>: it fails when the number
  of values is not the number of columns, when a value cannot be bound or when the
  engine rejects the row; otherwise the row is added after the stored ones.
\<close>

definition insert_row :: "env \<Rightarrow> string list \<Rightarrow> table \<Rightarrow> cell list \<Rightarrow> table option" where
  "insert_row env cols t vs =
     (if length vs = length cols then
        (case bind_row env vs of
           None \<Rightarrow> None
         | Some bs \<Rightarrow>
             (let r = zip (map lower cols) bs in
              if accepts env t r then Some (t\<lparr>trows := trows t @ [r]\<rparr>) else None))
      else None)"

text \<open>
  The rows of a batch are inserted one after the other; at the first failing row the
  error is raised and the rows before it stay inserted.
\<close>

fun insert_rows :: "env \<Rightarrow> string list \<Rightarrow> table \<Rightarrow> cell list list \<Rightarrow> error option \<times> table" where
  "insert_rows env cols t [] = (None, t)"
| "insert_rows env cols t (vs # rest) =
     (case insert_row env cols t vs of
        None \<Rightarrow> (Some SqliteError, t)
      | Some t' \<Rightarrow> insert_rows env cols t' rest)"

text \<open>
  \<open>executemany\<close>: the statement is compiled first (the table and every named column
  must exist, and there is at least one column), then a transaction is opened if
  none is, then the rows are inserted.
\<close>

definition executemany ::
  "env \<Rightarrow> connection \<Rightarrow> string \<Rightarrow> string list \<Rightarrow> cell list list \<Rightarrow> error option \<times> connection" where
  "executemany env c table_name cols vals =
     (case map_of (current c) table_name of
        None \<Rightarrow> (Some SqliteError, c)
      | Some t \<Rightarrow>
          if cols \<noteq> [] \<and> list_all (has_column t) cols then
            (case insert_rows env cols t vals of
               (err, t') \<Rightarrow>
                 (err, c\<lparr>current := AList.update table_name t' (current c),
                           in_transaction := True\<rparr>))
          else (Some SqliteError, c))"

text \<open>The rows of a data frame, as \<open>to_numpy\<close> gives them.\<close>

definition nrows :: "dataframe \<Rightarrow> nat" where
  "nrows df = (case df of [] \<Rightarrow> 0 | col # _ \<Rightarrow> length (snd col))"

definition df_rows :: "dataframe \<Rightarrow> cell list list" where
  "df_rows df = map (\<lambda>i. map (\<lambda>col. snd col ! i) df) [0 ..< nrows df]"

text \<open>
  \<open>insert_dataframe\<close>: commit after the batch, roll back and raise again on a
  database error. The row id that the source returns is not modelled.
\<close>

definition insert_dataframe ::
  "env \<Rightarrow> connection \<Rightarrow> string \<Rightarrow> dataframe \<Rightarrow> (error + unit) \<times> connection" where
  "insert_dataframe env c table_name df =
     (case executemany env c table_name (map fst df) (df_rows df) of
        (None, c') \<Rightarrow> (Inr (), commit c')
      | (Some e, c') \<Rightarrow> (Inl e, rollback c'))"

text \<open>
  \<open>timedelta(hours=h)\<close>: the number of whole days of a timedelta lies between
  -999999999 and 999999999, and the constructor raises \<open>OverflowError\<close> beyond.
\<close>

definition timedelta_hours :: "int \<Rightarrow> error + timedelta" where
  "timedelta_hours h =
     (if - 999999999 \<le> h div 24 \<and> h div 24 \<le> 999999999 then Inr (h * 3600000000)
      else Inl OverflowError)"

text \<open>
  \<open>should_fetch_data\<close>: the count query fails on an absent table; an empty table is
  to be fetched; otherwise the threshold is built, the newest date is read and the
  age of the data decides. \<open>OverflowError\<close>, \<open>ValueError\<close> and \<open>TypeError\<close> are not
  caught by the handler of the function and leave it as they are.
\<close>

definition should_fetch_data :: "env \<Rightarrow> connection \<Rightarrow> string \<Rightarrow> int \<Rightarrow> error + bool" where
  "should_fetch_data env c table_name max_age_hours =
     (case map_of (current c) table_name of
        None \<Rightarrow> Inl SqliteError
      | Some t \<Rightarrow>
          if length (trows t) = 0 then Inr True
          else
            (case timedelta_hours max_age_hours of
               Inl e \<Rightarrow> Inl e
             | Inr max_age \<Rightarrow>
                 (case get_newest_date env c table_name of
                    Inl e \<Rightarrow> Inl e
                  | Inr last_update_date \<Rightarrow>
                      (case last_update_date of
                         None \<Rightarrow> Inr True
                       | Some d \<Rightarrow>
                           if now env - d > max_age then Inr True else Inr False))))"

section \<open>Data frames (the operations of pandas that the program calls)\<close>

fun traverse :: "('a \<Rightarrow> error + 'b) \<Rightarrow> 'a list \<Rightarrow> error + 'b list" where
  "traverse f [] = Inr []"
| "traverse f (x # xs) =
     (case f x of
        Inl e \<Rightarrow> Inl e
      | Inr y \<Rightarrow> (case traverse f xs of Inl e \<Rightarrow> Inl e | Inr ys \<Rightarrow> Inr (y # ys)))"

subsection \<open>Arithmetic on float columns\<close>

text \<open>
  The values of a float column are the doubles of IEEE 754 (binary64):
  not-a-number, an infinity with its sign, a zero with its sign (\<open>True\<close> for the
  positive one), or a finite number other than zero.
\<close>

datatype ext = NaN | Inf bool | Zero bool | Fin real

text \<open>
  Rounding to the nearest double, ties to the even mantissa. A double is a multiple
  of a power of two, its quantum, by a mantissa below \<open>2 ^ 53\<close>; the exponent of the
  quantum lies between -1074 and 971. The quantum of the rounded value of \<open>a > 0\<close>
  has the least such exponent \<open>e\<close> with \<open>a < 2 ^ (e + 53)\<close>; there is none when \<open>a\<close> is
  \<open>2 ^ 1024\<close> or more, which overflows to infinity, as does a value that rounds up to
  \<open>2 ^ 1024\<close>. A value that rounds to the mantissa 0 underflows to the zero of its
  sign.
\<close>

definition pow2 :: "int \<Rightarrow> real" where
  "pow2 k = (if 0 \<le> k then 2 ^ nat k else 1 / 2 ^ nat (- k))"

definition quantum :: "real \<Rightarrow> int option" where
  "quantum a = find (\<lambda>e. a < pow2 (e + 53)) [- 1074 .. 971]"

definition round_half_even :: "real \<Rightarrow> int" where
  "round_half_even y =
     (let f = \<lfloor>y\<rfloor>; r = y - of_int f
      in if r < 1 / 2 then f else if 1 / 2 < r then f + 1 else if even f then f else f + 1)"

definition round_double :: "real \<Rightarrow> ext" where
  "round_double x =
     (if x = 0 then Zero True
      else case quantum \<bar>x\<bar> of
        None \<Rightarrow> Inf (0 < x)
      | Some e \<Rightarrow>
          (let m = round_half_even (\<bar>x\<bar> / pow2 e)
           in if m = 0 then Zero (0 < x)
              else if 2 ^ 1024 \<le> of_int m * pow2 e then Inf (0 < x)
              else Fin ((if 0 < x then 1 else - 1) * (of_int m * pow2 e))))"

text \<open>The doubles among these values: a finite number is one when rounding leaves it as it is.\<close>

definition float64 :: "ext \<Rightarrow> bool" where
  "float64 z = (case z of Fin y \<Rightarrow> round_double y = Fin y | _ \<Rightarrow> True)"

text \<open>
  The value of a cell as a double (a number that is no double, as an integer of a
  column of the type \<open>int64\<close> can be, is rounded), and a double as a cell.
\<close>

fun to_ext :: "cell \<Rightarrow> ext option" where
  "to_ext Null = Some NaN"
| "to_ext (Num x) = Some (round_double x)"
| "to_ext NegZero = Some (Zero False)"
| "to_ext PInf = Some (Inf True)"
| "to_ext NInf = Some (Inf False)"
| "to_ext v = None"

text \<open>The values that arithmetic accepts: numbers and the missing value.\<close>

definition is_float_cell :: "cell \<Rightarrow> bool" where
  "is_float_cell v = (to_ext v \<noteq> None)"

text \<open>
  The values that a column of the type \<open>float64\<close> can hold: the missing value, the
  infinities, the zeros, and the numbers that rounding leaves as they are.
\<close>

definition float64_cell :: "cell \<Rightarrow> bool" where
  "float64_cell v =
     (case v of
        Num x \<Rightarrow> x = 0 \<or> round_double x = Fin x
      | Text s \<Rightarrow> False
      | Date d \<Rightarrow> False
      | Obj j \<Rightarrow> False
      | _ \<Rightarrow> True)"

fun of_ext :: "ext \<Rightarrow> cell" where
  "of_ext NaN = Null"
| "of_ext (Fin x) = Num x"
| "of_ext (Zero s) = (if s then Num 0 else NegZero)"
| "of_ext (Inf s) = (if s then PInf else NInf)"

text \<open>
  The three operations of IEEE 754 that \<open>pct_change() * 100\<close> applies: the exact
  result is rounded; the special values follow the standard.
\<close>

fun ext_sub :: "ext \<Rightarrow> ext \<Rightarrow> ext" where
  "ext_sub NaN b = NaN"
| "ext_sub a NaN = NaN"
| "ext_sub (Inf s) (Inf t) = (if s = t then NaN else Inf s)"
| "ext_sub (Inf s) b = Inf s"
| "ext_sub a (Inf t) = Inf (\<not> t)"
| "ext_sub (Zero s) (Zero t) = Zero (s \<or> \<not> t)"
| "ext_sub (Zero s) (Fin y) = Fin (- y)"
| "ext_sub (Fin x) (Zero t) = Fin x"
| "ext_sub (Fin x) (Fin y) = round_double (x - y)"

fun ext_mul :: "ext \<Rightarrow> ext \<Rightarrow> ext" where
  "ext_mul NaN b = NaN"
| "ext_mul a NaN = NaN"
| "ext_mul (Inf s) (Inf t) = Inf (s = t)"
| "ext_mul (Inf s) (Zero t) = NaN"
| "ext_mul (Zero s) (Inf t) = NaN"
| "ext_mul (Inf s) (Fin y) = Inf (s = (0 < y))"
| "ext_mul (Fin x) (Inf t) = Inf ((0 < x) = t)"
| "ext_mul (Zero s) (Zero t) = Zero (s = t)"
| "ext_mul (Zero s) (Fin y) = Zero (s = (0 < y))"
| "ext_mul (Fin x) (Zero t) = Zero ((0 < x) = t)"
| "ext_mul (Fin x) (Fin y) = round_double (x * y)"

fun ext_div :: "ext \<Rightarrow> ext \<Rightarrow> ext" where
  "ext_div NaN b = NaN"
| "ext_div a NaN = NaN"
| "ext_div (Inf s) (Inf t) = NaN"
| "ext_div (Inf s) (Zero t) = Inf (s = t)"
| "ext_div (Inf s) (Fin y) = Inf (s = (0 < y))"
| "ext_div (Zero s) (Zero t) = NaN"
| "ext_div (Zero s) (Inf t) = Zero (s = t)"
| "ext_div (Zero s) (Fin y) = Zero (s = (0 < y))"
| "ext_div (Fin x) (Inf t) = Zero ((0 < x) = t)"
| "ext_div (Fin x) (Zero t) = Inf ((0 < x) = t)"
| "ext_div (Fin x) (Fin y) = round_double (x / y)"

text \<open>An operand that is no number (a text, a date, another object) raises \<open>TypeError\<close>.\<close>

definition lift_op :: "(ext \<Rightarrow> ext \<Rightarrow> ext) \<Rightarrow> cell \<Rightarrow> cell \<Rightarrow> error + cell" where
  "lift_op f a b =
     (case to_ext a of
        None \<Rightarrow> Inl TypeError
      | Some x \<Rightarrow> (case to_ext b of None \<Rightarrow> Inl TypeError | Some y \<Rightarrow> Inr (of_ext (f x y))))"

definition fsub :: "cell \<Rightarrow> cell \<Rightarrow> error + cell" where
  "fsub = lift_op ext_sub"

definition fmul :: "cell \<Rightarrow> cell \<Rightarrow> error + cell" where
  "fmul = lift_op ext_mul"

definition fdiv :: "cell \<Rightarrow> cell \<Rightarrow> error + cell" where
  "fdiv = lift_op ext_div"

subsection \<open>\<open>pct_change\<close>\<close>

text \<open>
  \<open>Series.pct_change()\<close> with its defaults: missing values are filled forward, then
  each value is divided by the value of the row before it and one is subtracted. The
  first row has no row before it.
\<close>

fun ffill_from :: "cell \<Rightarrow> cell list \<Rightarrow> cell list" where
  "ffill_from prev [] = []"
| "ffill_from prev (v # vs) =
     (if v = Null then prev # ffill_from prev vs else v # ffill_from v vs)"

definition ffill :: "cell list \<Rightarrow> cell list" where
  "ffill vs = ffill_from Null vs"

definition change :: "cell \<times> cell \<Rightarrow> error + cell" where
  "change p =
     (case fdiv (fst p) (snd p) of Inl e \<Rightarrow> Inl e | Inr q \<Rightarrow> fsub q (Num 1))"

definition pct_change :: "cell list \<Rightarrow> error + cell list" where
  "pct_change vs = (let data = ffill vs in traverse change (zip data (Null # data)))"

subsection \<open>Shape\<close>

text \<open>\<open>df.empty\<close>: no column or no row.\<close>

definition df_empty :: "dataframe \<Rightarrow> bool" where
  "df_empty df = (df = [] \<or> nrows df = 0)"

definition from_rows :: "string list \<Rightarrow> cell list list \<Rightarrow> dataframe" where
  "from_rows names rs = map (\<lambda>j. (names ! j, map (\<lambda>r. r ! j) rs)) [0 ..< length names]"

subsection \<open>\<open>pd.merge(left, right, on='Date', how='outer')\<close>\<close>

text \<open>
  The keys of the result are the keys of both frames in ascending order, each once.
  For one key, every left row with it is combined with every right row with it; a
  row without partner is completed with missing values. The key column stays where
  the left frame has it, the other columns of the right frame follow. A name that
  both frames have outside the key gets the suffix \<open>_x\<close> on the left and \<open>_y\<close> on the
  right.
\<close>

definition date_ord :: "cell \<Rightarrow> int" where
  "date_ord v = (case v of Date d \<Rightarrow> d | _ \<Rightarrow> 0)"

definition merge_names :: "dataframe \<Rightarrow> dataframe \<Rightarrow> string list" where
  "merge_names left right =
     (let ln = filter (\<lambda>n. n \<noteq> ''Date'') (map fst left);
          rn = filter (\<lambda>n. n \<noteq> ''Date'') (map fst right)
      in map (\<lambda>n. if n \<in> set rn then n @ ''_x'' else n) (map fst left)
         @ map (\<lambda>n. if n \<in> set ln then n @ ''_y'' else n) rn)"

definition merge_key ::
  "dataframe \<Rightarrow> nat \<Rightarrow> (cell \<times> cell list) list \<Rightarrow> (cell \<times> cell list) list \<Rightarrow> cell
     \<Rightarrow> cell list list" where
  "merge_key left width lrows rrows k =
     (let ls = map snd (filter (\<lambda>p. fst p = k) lrows);
          rs = map snd (filter (\<lambda>p. fst p = k) rrows)
      in if ls = [] then
           map (\<lambda>r. map (\<lambda>col. if fst col = ''Date'' then k else Null) left @ r) rs
         else if rs = [] then map (\<lambda>l. l @ replicate width Null) ls
         else concat (map (\<lambda>l. map (\<lambda>r. l @ r) rs) ls))"

definition merge_outer :: "dataframe \<Rightarrow> dataframe \<Rightarrow> error + dataframe" where
  "merge_outer left right =
     (case map_of left ''Date'' of
        None \<Rightarrow> Inl KeyError
      | Some lk \<Rightarrow>
          (case map_of right ''Date'' of
             None \<Rightarrow> Inl KeyError
           | Some rk \<Rightarrow>
               (let others = filter (\<lambda>col. fst col \<noteq> ''Date'') right;
                    lrows = zip lk (df_rows left);
                    rrows = zip rk (df_rows others);
                    keys = remdups (sort_key date_ord (lk @ rk))
                in Inr (from_rows (merge_names left right)
                     (concat (map (merge_key left (length others) lrows rrows) keys))))))"

subsection \<open>\<open>sort_values('Date')\<close>\<close>

text \<open>Rows in ascending order of the date, rows of one date in their former order.\<close>

definition sort_values_Date :: "dataframe \<Rightarrow> error + dataframe" where
  "sort_values_Date df =
     (case map_of df ''Date'' of
        None \<Rightarrow> Inl KeyError
      | Some ds \<Rightarrow>
          Inr (from_rows (map fst df)
                 (map snd (sort_key (\<lambda>p. date_ord (fst p)) (zip ds (df_rows df))))))"

subsection \<open>\<open>melt\<close> and the reshaping into long format\<close>

text \<open>
  \<open>df.melt(id_vars=['Date'], var_name='symbol', value_name=v)\<close>: one row for each
  value of each column other than the date, with the date of its row and the name
  of its column.
\<close>

definition melt :: "dataframe \<Rightarrow> string \<Rightarrow> error + dataframe" where
  "melt df value_name =
     (case map_of df ''Date'' of
        None \<Rightarrow> Inl KeyError
      | Some ds \<Rightarrow>
          (let vcols = filter (\<lambda>col. fst col \<noteq> ''Date'') df
           in Inr [(''Date'', concat (map (\<lambda>col. ds) vcols)),
                   (''symbol'', concat (map (\<lambda>col. replicate (length ds) (Text (fst col))) vcols)),
                   (value_name, concat (map snd vcols))]))"

definition replace_cell :: "string \<Rightarrow> string \<Rightarrow> cell \<Rightarrow> cell" where
  "replace_cell old new v = (case v of Text s \<Rightarrow> Text (str_replace old new s) | _ \<Rightarrow> Null)"

text \<open>\<open>astype(float)\<close> on one value.\<close>

definition to_float :: "env \<Rightarrow> cell \<Rightarrow> error + cell" where
  "to_float env v =
     (case v of
        Text s \<Rightarrow> (case parse_float env s of None \<Rightarrow> Inl ValueError | Some x \<Rightarrow> Inr x)
      | Date d \<Rightarrow> Inl TypeError
      | Obj j \<Rightarrow> Inl TypeError
      | _ \<Rightarrow> Inr v)"

text \<open>
  The lines of \<open>populate_historic_prices\<close> and \<open>populate_trading_volumes\<close> between
  the fetch and the write: melt, strip the suffix from the symbol, rename the date
  column, convert the value column to float. The result has the columns \<open>symbol\<close>,
  the value and \<open>date\<close>.
\<close>

definition long_format :: "env \<Rightarrow> dataframe \<Rightarrow> string \<Rightarrow> string \<Rightarrow> error + dataframe" where
  "long_format env df value_name tail_text =
     (case melt df value_name of
        Inl e \<Rightarrow> Inl e
      | Inr m \<Rightarrow>
          (case m of
             [d, s, v] \<Rightarrow>
               (case traverse (to_float env) (snd v) of
                  Inl e \<Rightarrow> Inl e
                | Inr fs \<Rightarrow>
                    Inr [(''symbol'', map (replace_cell tail_text '''') (snd s)),
                         (value_name, fs),
                         (''date'', snd d)])
           | _ \<Rightarrow> Inl KeyError))"

subsection \<open>\<open>DataFrame.to_sql\<close> on a SQLite connection\<close>

datatype if_exists = Fail | Replace | Append

definition sql_type :: "string \<Rightarrow> string" where
  "sql_type dt =
     (if dt = ''float64'' then ''REAL''
      else if dt = ''int64'' \<or> dt = ''bool'' then ''INTEGER''
      else if dt = ''datetime64[ns]'' then ''TIMESTAMP''
      else ''TEXT'')"

text \<open>
  An existing table is kept (\<open>Append\<close>) or dropped and created again (\<open>Replace\<close>); an
  absent one is created from the columns of the frame. The rows are inserted in one
  transaction, committed at the end and rolled back on an error.
\<close>

definition new_table :: "env \<Rightarrow> string \<Rightarrow> dataframe \<Rightarrow> connection \<Rightarrow> error + connection" where
  "new_table env name df c =
     (if df = [] then Inl SqliteError
      else Inr (run_ddl (\<lambda>db. db @ [(name,
             \<lparr>tcolumns = map (\<lambda>col. (fst col, sql_type (dtype env (snd col)))) df,
              trows = []\<rparr>)]) c))"

definition to_sql ::
  "env \<Rightarrow> connection \<Rightarrow> string \<Rightarrow> dataframe \<Rightarrow> if_exists \<Rightarrow> (error + unit) \<times> connection" where
  "to_sql env c name df mode =
     (case (if table_exists c name then
              (case mode of
                 Fail \<Rightarrow> Inl ValueError
               | Replace \<Rightarrow> new_table env name df (run_ddl (AList.delete name) c)
               | Append \<Rightarrow> Inr c)
            else new_table env name df c) of
        Inl e \<Rightarrow> (Inl e, c)
      | Inr c1 \<Rightarrow>
          if nrows df = 0 then (Inr (), commit c1)
          else
            (case executemany env c1 name (map fst df) (df_rows df) of
               (None, c2) \<Rightarrow> (Inr (), commit c2)
             | (Some e, c2) \<Rightarrow> (Inl e, rollback c2)))"

section \<open>The API client (coin\_project.py)\<close>

subsection \<open>Responses and parsed bodies\<close>

text \<open>\<open>raise_for_status\<close> raises for the status codes from 400 to 599.\<close>

definition raise_for_status :: "response \<Rightarrow> error + unit" where
  "raise_for_status r =
     (if 400 \<le> status_code r \<and> status_code r < 600 then Inl (HTTPError (status_code r))
      else Inr ())"

definition response_json :: "response \<Rightarrow> error + json" where
  "response_json r = (case body r of None \<Rightarrow> Inl JSONDecodeError | Some j \<Rightarrow> Inr j)"

text \<open>Indexing a sequence: a negative index counts from the end.\<close>

definition index_seq :: "'a list \<Rightarrow> int \<Rightarrow> error + 'a" where
  "index_seq xs i =
     (if 0 \<le> i \<and> i < int (length xs) then Inr (xs ! nat i)
      else if i < 0 \<and> - i \<le> int (length xs) then Inr (xs ! nat (int (length xs) + i))
      else Inl IndexError)"

text \<open>
  \<open>container[key]\<close> on parsed JSON. An object has text keys only, the last value of
  a repeated key being the one kept; a list or a dict as key is unhashable. A list
  and a text are indexed by integers (a boolean counts as one).
\<close>

definition getitem :: "json \<Rightarrow> json \<Rightarrow> error + json" where
  "getitem container key =
     (case container of
        JObj kvs \<Rightarrow>
          (case key of
             JStr k \<Rightarrow> (case map_of (rev kvs) k of None \<Rightarrow> Inl KeyError | Some v \<Rightarrow> Inr v)
           | JArr xs \<Rightarrow> Inl TypeError
           | JObj xs \<Rightarrow> Inl TypeError
           | _ \<Rightarrow> Inl KeyError)
      | JArr xs \<Rightarrow>
          (case key of
             JInt i \<Rightarrow> index_seq xs i
           | JBool b \<Rightarrow> index_seq xs (if b then 1 else 0)
           | _ \<Rightarrow> Inl TypeError)
      | JStr s \<Rightarrow>
          (case key of
             JInt i \<Rightarrow> (case index_seq s i of Inl e \<Rightarrow> Inl e | Inr ch \<Rightarrow> Inr (JStr [ch]))
           | JBool b \<Rightarrow>
               (case index_seq s (if b then 1 else 0) of
                  Inl e \<Rightarrow> Inl e | Inr ch \<Rightarrow> Inr (JStr [ch]))
           | _ \<Rightarrow> Inl TypeError)
      | _ \<Rightarrow> Inl TypeError)"

definition subscript :: "json \<Rightarrow> string \<Rightarrow> error + json" where
  "subscript container k = getitem container (JStr k)"

text \<open>
  Iterating parsed JSON: the elements of a list, the keys of an object (each once,
  in the order of their first occurrence), the characters of a text.
\<close>

definition py_iter :: "json \<Rightarrow> error + json list" where
  "py_iter j =
     (case j of
        JArr xs \<Rightarrow> Inr xs
      | JObj kvs \<Rightarrow> Inr (map JStr (rev (remdups (rev (map fst kvs)))))
      | JStr s \<Rightarrow> Inr (map (\<lambda>ch. JStr [ch]) s)
      | _ \<Rightarrow> Inl TypeError)"

text \<open>A parsed value as the value of a data frame.\<close>

definition json_cell :: "json \<Rightarrow> cell" where
  "json_cell j =
     (case j of
        JNull \<Rightarrow> Null
      | JInt i \<Rightarrow> Num (of_int i)
      | JFloat x \<Rightarrow> Num x
      | JStr s \<Rightarrow> Text s
      | _ \<Rightarrow> Obj j)"

definition py_fromtimestamp :: "env \<Rightarrow> json \<Rightarrow> error + cell" where
  "py_fromtimestamp env j =
     (case (case j of
              JInt i \<Rightarrow> fromtimestamp env (of_int i)
            | JFloat x \<Rightarrow> fromtimestamp env x
            | JBool b \<Rightarrow> fromtimestamp env (if b then 1 else 0)
            | _ \<Rightarrow> Inl TypeError) of
        Inl e \<Rightarrow> Inl e
      | Inr d \<Rightarrow> Inr (Date d))"

text \<open>The text of a value inside an f-string.\<close>

definition py_str :: "env \<Rightarrow> json \<Rightarrow> string" where
  "py_str env j =
     (case j of
        JStr s \<Rightarrow> s
      | JNull \<Rightarrow> ''None''
      | JBool b \<Rightarrow> (if b then ''True'' else ''False'')
      | JInt i \<Rightarrow> str_int i
      | _ \<Rightarrow> py_repr env j)"

subsection \<open>The daily history of one symbol\<close>

text \<open>
  The lines that \<open>fetch_price_history\<close> and \<open>fetch_trading_volumes\<close> share:
  \<open>data['Data']['Data']\<close>, the timestamps of its entries, then the values of one
  field of its entries.
\<close>

definition entry_time :: "env \<Rightarrow> json \<Rightarrow> error + cell" where
  "entry_time env entry =
     (case subscript entry ''time'' of Inl e \<Rightarrow> Inl e | Inr t \<Rightarrow> py_fromtimestamp env t)"

definition entry_value :: "string \<Rightarrow> json \<Rightarrow> error + cell" where
  "entry_value field entry =
     (case subscript entry field of Inl e \<Rightarrow> Inl e | Inr v \<Rightarrow> Inr (json_cell v))"

definition series :: "env \<Rightarrow> json \<Rightarrow> string \<Rightarrow> error + cell list \<times> cell list" where
  "series env data field =
     (case subscript data ''Data'' of
        Inl e \<Rightarrow> Inl e
      | Inr d1 \<Rightarrow>
          (case subscript d1 ''Data'' of
             Inl e \<Rightarrow> Inl e
           | Inr d2 \<Rightarrow>
               (case py_iter d2 of
                  Inl e \<Rightarrow> Inl e
                | Inr entries \<Rightarrow>
                    (case traverse (entry_time env) entries of
                       Inl e \<Rightarrow> Inl e
                     | Inr timestamps \<Rightarrow>
                         (case traverse (entry_value field) entries of
                            Inl e \<Rightarrow> Inl e
                          | Inr vals \<Rightarrow> Inr (timestamps, vals))))))"

text \<open>
  The first lines of the loop body: the request, the status check (only here, not
  in the two functions further down), the parsed body and its series.
\<close>

definition fetch_series :: "env \<Rightarrow> string \<Rightarrow> string \<Rightarrow> error + cell list \<times> cell list" where
  "fetch_series env url field =
     (case requests_get env url of
        Inl e \<Rightarrow> Inl e
      | Inr response \<Rightarrow>
          (case raise_for_status response of
             Inl e \<Rightarrow> Inl e
           | Inr u \<Rightarrow>
               (case response_json response of
                  Inl e \<Rightarrow> Inl e
                | Inr data \<Rightarrow> series env data field)))"

text \<open>
  The last lines of the loop body: the first non-empty frame is taken as it is, a
  later one is merged into the frame so far.
\<close>

definition accumulate :: "dataframe \<Rightarrow> dataframe \<Rightarrow> error + dataframe" where
  "accumulate df temp_df = (if df_empty df then Inr temp_df else merge_outer df temp_df)"

text \<open>
  One pass of the loop of \<open>fetch_price_history\<close> (column suffix \<open>Price\<close>, field
  \<open>close\<close>) and of \<open>fetch_trading_volumes\<close> (column suffix \<open>Volume\<close>, field
  \<open>volumeto\<close>): the series of the symbol, its frame, accumulate.
\<close>

definition fetch_symbol ::
  "env \<Rightarrow> string \<Rightarrow> string \<Rightarrow> string \<Rightarrow> string \<Rightarrow> dataframe \<Rightarrow> error + dataframe" where
  "fetch_symbol env field col_suffix url symbol df =
     (case fetch_series env url field of
        Inl e \<Rightarrow> Inl e
      | Inr tv \<Rightarrow> accumulate df [(''Date'', fst tv), (symbol @ col_suffix, snd tv)])"

text \<open>
  The loops carry the frame so far and the list of the URLs requested so far; a
  request is recorded when it is sent, whatever happens to its answer.
\<close>

fun fetch_loop ::
  "env \<Rightarrow> string \<Rightarrow> string \<Rightarrow> (string \<times> string) list \<Rightarrow> dataframe \<Rightarrow> string list
     \<Rightarrow> (error + dataframe) \<times> string list" where
  "fetch_loop env field col_suffix [] df reqs = (Inr df, reqs)"
| "fetch_loop env field col_suffix (p # rest) df reqs =
     (case fetch_symbol env field col_suffix (fst p) (snd p) df of
        Inl e \<Rightarrow> (Inl e, reqs @ [fst p])
      | Inr df' \<Rightarrow> fetch_loop env field col_suffix rest df' (reqs @ [fst p]))"

definition fetch_price_history ::
  "env \<Rightarrow> string list \<Rightarrow> string list \<Rightarrow> string list \<Rightarrow> (error + dataframe) \<times> string list" where
  "fetch_price_history env urls coins reqs =
     fetch_loop env ''close'' '' Price'' (zip urls coins) [] reqs"

definition fetch_trading_volumes ::
  "env \<Rightarrow> string list \<Rightarrow> int \<Rightarrow> int \<Rightarrow> string list \<Rightarrow> (error + dataframe) \<times> string list" where
  "fetch_trading_volumes env coins limit end_timestamp reqs =
     fetch_loop env ''volumeto'' '' Volume''
       (zip (map (\<lambda>symbol. histoday_url env symbol limit end_timestamp) coins) coins) [] reqs"

text \<open>
  What the specification says of the merge of two series, the dates \<open>ds1\<close> with the
  values \<open>ps1\<close> and the dates \<open>ds2\<close> with the values \<open>ps2\<close>, for the columns \<open>ds\<close>,
  \<open>pa\<close> and \<open>pb\<close> of the merged frame: the dates are the union of the dates of both
  series, and in each row the column of a series holds a value that the series has
  for the date of the row, or null where the series has no data for that date.
\<close>

definition union_with_nulls ::
  "cell list \<Rightarrow> cell list \<Rightarrow> cell list \<Rightarrow> cell list \<Rightarrow> cell list \<Rightarrow> cell list \<Rightarrow> cell list
     \<Rightarrow> bool" where
  "union_with_nulls ds1 ps1 ds2 ps2 ds pa pb =
     (length pa = length ds \<and> length pb = length ds \<and> set ds = set ds1 \<union> set ds2
      \<and> list_all (\<lambda>i.
            (if ds ! i \<in> set ds1 then (ds ! i, pa ! i) \<in> set (zip ds1 ps1)
             else pa ! i = Null)
            \<and> (if ds ! i \<in> set ds2 then (ds ! i, pb ! i) \<in> set (zip ds2 ps2)
                 else pb ! i = Null)) [0 ..< length ds])"

subsection \<open>Coin list and market capitalisation\<close>

text \<open>Neither of the two functions looks at the status of the response.\<close>

definition coin_details :: "env \<Rightarrow> json \<Rightarrow> string \<Rightarrow> error + cell list" where
  "coin_details env coin_info symbol =
     (case subscript coin_info symbol of
        Inl e \<Rightarrow> Inl e
      | Inr coin \<Rightarrow>
          (case subscript coin ''CoinName'' of
             Inl e \<Rightarrow> Inl e
           | Inr name \<Rightarrow>
               (case subscript coin ''Description'' of
                  Inl e \<Rightarrow> Inl e
                | Inr description \<Rightarrow>
                    (case subscript coin ''ImageUrl'' of
                       Inl e \<Rightarrow> Inl e
                     | Inr image_url \<Rightarrow>
                         Inr [Text symbol, json_cell name, json_cell description,
                              Text (''https://www.cryptocompare.com'' @ py_str env image_url),
                              Text (strftime env (now env))]))))"

definition fetch_coin_info ::
  "env \<Rightarrow> string list \<Rightarrow> string list \<Rightarrow> (error + dataframe) \<times> string list" where
  "fetch_coin_info env coins reqs =
     (let url = ''https://min-api.cryptocompare.com/data/all/coinlist'' in
      (case requests_get env url of
         Inl e \<Rightarrow> Inl e
       | Inr response \<Rightarrow>
           (case response_json response of
              Inl e \<Rightarrow> Inl e
            | Inr data \<Rightarrow>
                (case subscript data ''Data'' of
                   Inl e \<Rightarrow> Inl e
                 | Inr coin_info \<Rightarrow>
                     (case traverse (coin_details env coin_info) coins of
                        Inl e \<Rightarrow> Inl e
                      | Inr details \<Rightarrow>
                          Inr (from_rows
                                 [''Symbol'', ''Name'', ''Description'', ''ImageUrl'', ''Date'']
                                 details)))),
       reqs @ [url]))"

definition fetch_market_cap :: "env \<Rightarrow> string \<Rightarrow> string list \<Rightarrow> (error + json) \<times> string list" where
  "fetch_market_cap env coins reqs =
     (let url = ''https://min-api.cryptocompare.com/data/pricemultifull?fsyms='' @ coins
                  @ ''&tsyms=USD&api_key='' @ API_KEY env in
      (case requests_get env url of
         Inl e \<Rightarrow> Inl e
       | Inr response \<Rightarrow>
           (case response_json response of
              Inl e \<Rightarrow> Inl e
            | Inr data \<Rightarrow> subscript data ''RAW''),
       reqs @ [url]))"

section \<open>The update operations (coin\_project.py)\<close>

text \<open>
  The state that an operation works on: the database connection and the list of
  the URLs requested so far. Messages printed on the way are not modelled.
\<close>

record world =
  conn :: connection
  sent :: "string list"

subsection \<open>\<open>calculate_price_change\<close>\<close>

text \<open>
  For each configured coin the column \<open>coin Price\<close> is read (\<open>KeyError\<close> when it is
  absent) and the column \<open>coin Price Change\<close> is set: replaced where it stands when
  the frame has it, added as the last column otherwise.
\<close>

definition times_100 :: "cell \<Rightarrow> error + cell" where
  "times_100 p = fmul p (Num 100)"

fun price_change_loop :: "string list \<Rightarrow> dataframe \<Rightarrow> error + dataframe" where
  "price_change_loop [] df = Inr df"
| "price_change_loop (coin # coins) df =
     (case map_of df (coin @ '' Price'') of
        None \<Rightarrow> Inl KeyError
      | Some prices \<Rightarrow>
          (case pct_change prices of
             Inl e \<Rightarrow> Inl e
           | Inr ps \<Rightarrow>
               (case traverse times_100 ps of
                  Inl e \<Rightarrow> Inl e
                | Inr changes \<Rightarrow>
                    price_change_loop coins
                      (AList.update (coin @ '' Price Change'') changes df))))"

definition calculate_price_change :: "env \<Rightarrow> dataframe \<Rightarrow> error + dataframe" where
  "calculate_price_change env df = price_change_loop (CRYPTOCURRENCIES env) df"

subsection \<open>The guard of every update\<close>

text \<open>
  \<open>table_exists(t) and not should_fetch_data(t, h)\<close>: the second operand is only
  evaluated when the table exists, and its exception leaves the operation.
\<close>

definition skip_update :: "env \<Rightarrow> connection \<Rightarrow> string \<Rightarrow> int \<Rightarrow> error + bool" where
  "skip_update env c table_name max_age_hours =
     (if table_exists c table_name then
        (case should_fetch_data env c table_name max_age_hours of
           Inl e \<Rightarrow> Inl e
         | Inr b \<Rightarrow> Inr (\<not> b))
      else Inr False)"

definition newest_or_none :: "env \<Rightarrow> connection \<Rightarrow> string \<Rightarrow> error + datetime option" where
  "newest_or_none env c table_name =
     (if table_exists c table_name then get_newest_date env c table_name else Inr None)"

definition ensure_table ::
  "connection \<Rightarrow> string \<Rightarrow> (string \<times> string) list \<Rightarrow> (error + unit) \<times> connection" where
  "ensure_table c table_name cols =
     (if \<not> table_exists c table_name then create_table c table_name cols else (Inr (), c))"

subsection \<open>Price history\<close>

definition get_historic_prices ::
  "env \<Rightarrow> world \<Rightarrow> string list \<Rightarrow> (error + dataframe) \<times> world" where
  "get_historic_prices env w coins =
     (let end_date = now env;
          end_timestamp = timestamp env end_date
      in case newest_or_none env (conn w) ''price_history'' of
           Inl e \<Rightarrow> (Inl e, w)
         | Inr newest_date \<Rightarrow>
             (let start_date = get_start_date (now env) newest_date;
                  limit = get_limit newest_date end_date;
                  urls = construct_api_urls env coins limit end_timestamp
              in case fetch_price_history env urls coins (sent w) of
                   (Inl e, reqs) \<Rightarrow> (Inl e, w\<lparr>sent := reqs\<rparr>)
                 | (Inr df, reqs) \<Rightarrow>
                     (case calculate_price_change env df of
                        Inl e \<Rightarrow> (Inl e, w\<lparr>sent := reqs\<rparr>)
                      | Inr df1 \<Rightarrow>
                          (case sort_values_Date df1 of
                             Inl e \<Rightarrow> (Inl e, w\<lparr>sent := reqs\<rparr>)
                           | Inr df2 \<Rightarrow> (Inr df2, w\<lparr>sent := reqs\<rparr>)))))"

definition populate_historic_prices :: "env \<Rightarrow> world \<Rightarrow> (error + unit) \<times> world" where
  "populate_historic_prices env w =
     (case skip_update env (conn w) ''price_history'' (24 * 60) of
        Inl e \<Rightarrow> (Inl e, w)
      | Inr True \<Rightarrow> (Inr (), w)
      | Inr False \<Rightarrow>
          (case get_historic_prices env w (CRYPTOCURRENCIES env) of
             (Inl e, w1) \<Rightarrow> (Inl e, w1)
           | (Inr df, w1) \<Rightarrow>
               (case ensure_table (conn w1) ''price_history''
                       [(''id'', ''INTEGER PRIMARY KEY AUTOINCREMENT''), (''symbol'', ''TEXT''),
                        (''date'', ''DATE''), (''price'', ''REAL''), (''price_change'', ''REAL'')] of
                  (Inl e, c2) \<Rightarrow> (Inl e, w1\<lparr>conn := c2\<rparr>)
                | (Inr u, c2) \<Rightarrow>
                    (case long_format env df ''price'' '' Price'' of
                       Inl e \<Rightarrow> (Inl e, w1\<lparr>conn := c2\<rparr>)
                     | Inr long \<Rightarrow>
                         (case to_sql env c2 ''price_history'' long Append of
                            (r, c3) \<Rightarrow> (r, w1\<lparr>conn := c3\<rparr>))))))"

subsection \<open>Trading volumes\<close>

definition populate_trading_volumes :: "env \<Rightarrow> world \<Rightarrow> (error + unit) \<times> world" where
  "populate_trading_volumes env w =
     (case skip_update env (conn w) ''trading_volumes'' 24 of
        Inl e \<Rightarrow> (Inl e, w)
      | Inr True \<Rightarrow> (Inr (), w)
      | Inr False \<Rightarrow>
          (case newest_or_none env (conn w) ''trading_volumes'' of
             Inl e \<Rightarrow> (Inl e, w)
           | Inr newest_date \<Rightarrow>
               (let end_date = now env;
                    end_timestamp = timestamp env end_date;
                    limit = get_limit newest_date end_date
                in case fetch_trading_volumes env (CRYPTOCURRENCIES env) limit end_timestamp
                          (sent w) of
                     (Inl e, reqs) \<Rightarrow> (Inl e, w\<lparr>sent := reqs\<rparr>)
                   | (Inr df, reqs) \<Rightarrow>
                       (case ensure_table (conn w) ''trading_volumes''
                               [(''id'', ''INTEGER PRIMARY KEY AUTOINCREMENT''),
                                (''symbol'', ''TEXT''), (''date'', ''DATE''),
                                (''volume'', ''REAL'')] of
                          (Inl e, c2) \<Rightarrow> (Inl e, \<lparr>conn = c2, sent = reqs\<rparr>)
                        | (Inr u, c2) \<Rightarrow>
                            (case long_format env df ''volume'' '' Volume'' of
                               Inl e \<Rightarrow> (Inl e, \<lparr>conn = c2, sent = reqs\<rparr>)
                             | Inr long \<Rightarrow>
                                 (case to_sql env c2 ''trading_volumes'' long Append of
                                    (r, c3) \<Rightarrow> (r, \<lparr>conn = c3, sent = reqs\<rparr>)))))))"

subsection \<open>Market capitalisation\<close>

fun join :: "string \<Rightarrow> string list \<Rightarrow> string" where
  "join sep [] = []"
| "join sep [s] = s"
| "join sep (s # t # ts) = s @ sep @ join sep (t # ts)"

definition market_cap_row :: "env \<Rightarrow> json \<Rightarrow> json \<Rightarrow> error + cell list" where
  "market_cap_row env market_cap_data symbol =
     (case getitem market_cap_data symbol of
        Inl e \<Rightarrow> Inl e
      | Inr by_symbol \<Rightarrow>
          (case subscript by_symbol ''USD'' of
             Inl e \<Rightarrow> Inl e
           | Inr usd \<Rightarrow>
               (case subscript usd ''MKTCAP'' of
                  Inl e \<Rightarrow> Inl e
                | Inr market_cap \<Rightarrow>
                    Inr [json_cell symbol, json_cell market_cap,
                         Text (strftime env (now env))])))"

definition market_cap_frame :: "env \<Rightarrow> json \<Rightarrow> error + dataframe" where
  "market_cap_frame env market_cap_data =
     (case py_iter market_cap_data of
        Inl e \<Rightarrow> Inl e
      | Inr symbols \<Rightarrow>
          (case traverse (market_cap_row env market_cap_data) symbols of
             Inl e \<Rightarrow> Inl e
           | Inr data \<Rightarrow> Inr (from_rows [''symbol'', ''market_cap'', ''date''] data)))"

definition populate_market_cap :: "env \<Rightarrow> world \<Rightarrow> (error + unit) \<times> world" where
  "populate_market_cap env w =
     (case skip_update env (conn w) ''market_cap'' 24 of
        Inl e \<Rightarrow> (Inl e, w)
      | Inr True \<Rightarrow> (Inr (), w)
      | Inr False \<Rightarrow>
          (case fetch_market_cap env (join '','' (CRYPTOCURRENCIES env)) (sent w) of
             (Inl e, reqs) \<Rightarrow> (Inl e, w\<lparr>sent := reqs\<rparr>)
           | (Inr market_cap_data, reqs) \<Rightarrow>
               (case market_cap_frame env market_cap_data of
                  Inl e \<Rightarrow> (Inl e, w\<lparr>sent := reqs\<rparr>)
                | Inr df \<Rightarrow>
                    (case ensure_table (conn w) ''market_cap''
                            [(''symbol'', ''TEXT''), (''market_cap'', ''REAL''),
                             (''date'', ''DATE'')] of
                       (Inl e, c2) \<Rightarrow> (Inl e, \<lparr>conn = c2, sent = reqs\<rparr>)
                     | (Inr u, c2) \<Rightarrow>
                         (case to_sql env c2 ''market_cap'' df Replace of
                            (r, c3) \<Rightarrow> (r, \<lparr>conn = c3, sent = reqs\<rparr>))))))"

subsection \<open>Coin information\<close>

text \<open>
  \<open>populate_coin_data\<close> drops and creates the table and returns the fetched frame;
  its insert is commented out in the source.
\<close>

definition populate_coin_data :: "env \<Rightarrow> world \<Rightarrow> (error + dataframe option) \<times> world" where
  "populate_coin_data env w =
     (case skip_update env (conn w) ''coin_info'' 4380 of
        Inl e \<Rightarrow> (Inl e, w)
      | Inr True \<Rightarrow> (Inr None, w)
      | Inr False \<Rightarrow>
          (let c1 = (if table_exists (conn w) ''coin_info''
                     then drop_table (conn w) ''coin_info'' else conn w)
           in case create_table c1 ''coin_info''
                     [(''Symbol'', ''TEXT PRIMARY KEY''), (''Name'', ''TEXT''),
                      (''Description'', ''TEXT''), (''ImageUrl'', ''TEXT''),
                      (''date'', ''DATE'')] of
                (Inl e, c2) \<Rightarrow> (Inl e, w\<lparr>conn := c2\<rparr>)
              | (Inr u, c2) \<Rightarrow>
                  (case fetch_coin_info env (CRYPTOCURRENCIES env) (sent w) of
                     (Inl e, reqs) \<Rightarrow> (Inl e, \<lparr>conn = c2, sent = reqs\<rparr>)
                   | (Inr coin_info_df, reqs) \<Rightarrow>
                       (Inr (Some coin_info_df), \<lparr>conn = c2, sent = reqs\<rparr>))))"

subsection \<open>\<open>populate_data\<close>\<close>

text \<open>
  The fetch function with its arguments is a function from the requests sent so far
  to a frame or an error and the requests sent after it; the optional manipulator
  maps a frame to a frame or an error.
\<close>

definition column_type :: "env \<Rightarrow> cell list \<Rightarrow> string" where
  "column_type env vs =
     (if dtype env vs = ''datetime64[ns]'' then ''DATE''
      else if dtype env vs = ''float64'' then ''REAL''
      else ''TEXT'')"

definition populate_data ::
  "env \<Rightarrow> world \<Rightarrow> string \<Rightarrow> (string list \<Rightarrow> (error + dataframe) \<times> string list)
     \<Rightarrow> (dataframe \<Rightarrow> error + dataframe) option \<Rightarrow> (error + unit) \<times> world" where
  "populate_data env w table_name fetch_function data_manipulator =
     (case skip_update env (conn w) table_name 24 of
        Inl e \<Rightarrow> (Inl e, w)
      | Inr True \<Rightarrow> (Inr (), w)
      | Inr False \<Rightarrow>
          (case fetch_function (sent w) of
             (Inl e, reqs) \<Rightarrow> (Inl e, w\<lparr>sent := reqs\<rparr>)
           | (Inr fetched, reqs) \<Rightarrow>
               (case (case data_manipulator of None \<Rightarrow> Inr fetched | Some f \<Rightarrow> f fetched) of
                  Inl e \<Rightarrow> (Inl e, w\<lparr>sent := reqs\<rparr>)
                | Inr df \<Rightarrow>
                    (case create_table (conn w) table_name
                            (map (\<lambda>col. (lower (fst col), column_type env (snd col))) df) of
                       (Inl e, c1) \<Rightarrow> (Inl e, \<lparr>conn = c1, sent = reqs\<rparr>)
                     | (Inr u, c1) \<Rightarrow>
                         (case insert_dataframe env c1 table_name df of
                            (r, c2) \<Rightarrow> (r, \<lparr>conn = c2, sent = reqs\<rparr>))))))"

subsection \<open>\<open>main\<close>\<close>

text \<open>
  \<open>main\<close> updates the coin information through \<open>populate_data\<close>; its second call of
  \<open>populate_data\<close> passes no fetch function, which is a \<open>TypeError\<close> at the call.
\<close>

definition main :: "env \<Rightarrow> database \<Rightarrow> (error + unit) \<times> world" where
  "main env db =
     (case populate_data env \<lparr>conn = connect db, sent = []\<rparr> ''coin_info''
             (fetch_coin_info env (CRYPTOCURRENCIES env)) None of
        (Inl e, w) \<Rightarrow> (Inl e, w)
      | (Inr u, w) \<Rightarrow> (Inl TypeError, w))"

section \<open>An environment and stored states for the examples\<close>

text \<open>
  In the example environment the clock stands at hour 100, which is 04:00 on the
  fifth day. The text of a date has the format \<open>%Y-%m-%d %H:%M:%S\<close>, for the dates
  of the first month of the time line only (it is named January 1970). Two coins
  are configured, the engine accepts every row, and the server answers every URL
  with status 200 and an empty object.
\<close>

definition two_digits :: "int \<Rightarrow> string" where
  "two_digits n = [''0123456789'' ! nat (n div 10), ''0123456789'' ! nat (n mod 10)]"

definition example_text :: "datetime \<Rightarrow> string" where
  "example_text d =
     (let s = d div 1000000
      in ''1970-01-'' @ two_digits (s div 86400 + 1) @ '' '' @ two_digits (s mod 86400 div 3600)
           @ '':'' @ two_digits (s mod 3600 div 60) @ '':'' @ two_digits (s mod 60))"

definition digit_value :: "char \<Rightarrow> int option" where
  "digit_value ch = map_of (zip ''0123456789'' [0, 1, 2, 3, 4, 5, 6, 7, 8, 9]) ch"

fun number_value :: "int \<Rightarrow> string \<Rightarrow> int option" where
  "number_value acc [] = Some acc"
| "number_value acc (ch # cs) =
     (case digit_value ch of None \<Rightarrow> None | Some d \<Rightarrow> number_value (10 * acc + d) cs)"

definition date_field :: "string \<Rightarrow> nat \<Rightarrow> int option" where
  "date_field s pos = number_value 0 (take 2 (drop pos s))"

definition example_strptime :: "string \<Rightarrow> datetime option" where
  "example_strptime s =
     (if length s = 19 \<and> take 8 s = ''1970-01-'' \<and> take 1 (drop 10 s) = '' ''
         \<and> take 1 (drop 13 s) = '':'' \<and> take 1 (drop 16 s) = '':''
      then
        (case date_field s 8 of
           None \<Rightarrow> None
         | Some dd \<Rightarrow>
             (case date_field s 11 of
                None \<Rightarrow> None
              | Some hh \<Rightarrow>
                  (case date_field s 14 of
                     None \<Rightarrow> None
                   | Some mm \<Rightarrow>
                       (case date_field s 17 of
                          None \<Rightarrow> None
                        | Some ss \<Rightarrow>
                            if 1 \<le> dd \<and> dd \<le> 31 \<and> hh < 24 \<and> mm < 60 \<and> ss < 60
                            then Some (((((dd - 1) * 24 + hh) * 60 + mm) * 60 + ss) * 1000000)
                            else None))))
      else None)"

definition example_dtype :: "cell list \<Rightarrow> string" where
  "example_dtype vs = (if list_all is_float_cell vs then ''float64'' else ''object'')"

definition example_env :: env where
  "example_env =
     \<lparr>now = 360000000000,
      timestamp = (\<lambda>d. d div 1000000),
      fromtimestamp = (\<lambda>x. Inr (\<lfloor>x\<rfloor> * 1000000)),
      strftime = example_text,
      strptime = example_strptime,
      adapt_datetime = example_text,
      py_repr = (\<lambda>j. ''''),
      parse_float = (\<lambda>s. None),
      dtype = example_dtype,
      accepts = (\<lambda>t r. True),
      requests_get = (\<lambda>url. Inr \<lparr>status_code = 200, body = Some (JObj [])\<rparr>),
      CRYPTOCURRENCIES = [''BTC'', ''ETH''],
      API_KEY = ''key''\<rparr>"

text \<open>The engine of a table whose symbol is a primary key: no stored symbol twice.\<close>

definition unique_symbol :: "table \<Rightarrow> row \<Rightarrow> bool" where
  "unique_symbol t r =
     (row_get r ''symbol'' \<notin> set (map (\<lambda>q. row_get q ''symbol'') (trows t)))"

text \<open>
  A stored table of the given name with one row for the symbol \<open>OLD\<close>, with the
  given date text.
\<close>

definition one_row_table :: "string \<Rightarrow> string \<Rightarrow> string \<times> table" where
  "one_row_table table_name date_text =
     (table_name,
      \<lparr>tcolumns = [(''symbol'', ''TEXT''), (''date'', ''DATE'')],
       trows = [[(''symbol'', Text ''OLD''), (''date'', Text date_text)]]\<rparr>)"


text \<open>All four tables with a row of hour 90 (fresh at hour 100 for every threshold).\<close>

definition fresh_db :: database where
  "fresh_db =
     [one_row_table ''coin_info'' ''1970-01-04 18:00:00'', one_row_table ''price_history'' ''1970-01-04 18:00:00'',
      one_row_table ''market_cap'' ''1970-01-04 18:00:00'', one_row_table ''trading_volumes'' ''1970-01-04 18:00:00'']"

text \<open>The coin information with a row of hour 10 (older than 24 hours at hour 100).\<close>

definition stale_db :: database where
  "stale_db = [one_row_table ''coin_info'' ''1970-01-01 10:00:00'']"

text \<open>
  The example environment with the engine of a primary key on the symbol, and a
  frame of two rows whose second row repeats the stored symbol.
\<close>

definition strict_env :: env where
  "strict_env = example_env\<lparr>accepts := unique_symbol\<rparr>"

definition two_rows :: dataframe where
  "two_rows = [(''symbol'', [Text ''NEW'', Text ''OLD'']), (''date'', [Text ''1970-01-05 04:00:00'', Text ''1970-01-05 04:00:00''])]"

definition fresh_world :: world where
  "fresh_world = \<lparr>conn = connect fresh_db, sent = []\<rparr>"

text \<open>
  A server that answers every URL with the given status and one body, which holds a
  coin list (\<open>Data\<close>) and market capitalisations (\<open>RAW\<close>) for both coins.
\<close>

definition coin_entry :: "string \<Rightarrow> json" where
  "coin_entry name =
     JObj [(''CoinName'', JStr name), (''Description'', JStr ''text''),
           (''ImageUrl'', JStr ''/img'')]"

definition answer :: "nat \<Rightarrow> response" where
  "answer status =
     \<lparr>status_code = status,
      body = Some (JObj
        [(''Data'', JObj [(''BTC'', coin_entry ''Bitcoin''), (''ETH'', coin_entry ''Ethereum'')]),
         (''RAW'', JObj [(''BTC'', JObj [(''USD'', JObj [(''MKTCAP'', JInt 500)])]),
                         (''ETH'', JObj [(''USD'', JObj [(''MKTCAP'', JInt 200)])])])])\<rparr>"

definition server_env :: "nat \<Rightarrow> env" where
  "server_env status = example_env\<lparr>requests_get := (\<lambda>url. Inr (answer status))\<rparr>"

text \<open>
  The coin information as an earlier run of \<open>populate_data\<close> has stored it: one row
  for \<open>BTC\<close>, of hour 10.
\<close>

definition old_coin_row :: row where
  "old_coin_row =
     [(''symbol'', Text ''BTC''), (''name'', Text ''Old name''), (''description'', Text ''old''),
      (''imageurl'', Text ''https://www.cryptocompare.com/old''), (''date'', Text ''1970-01-01 10:00:00'')]"

definition old_coin_info :: database where
  "old_coin_info =
     [(''coin_info'',
       \<lparr>tcolumns = [(''symbol'', ''TEXT''), (''name'', ''TEXT''), (''description'', ''TEXT''),
                    (''imageurl'', ''TEXT''), (''date'', ''TEXT'')],
        trows = [old_coin_row]\<rparr>)]"

text \<open>
  The frame that \<open>fetch_coin_info\<close> builds from that body at hour 100, and the stored
  coin information with its rows after the old one.
\<close>

definition new_coin_frame :: dataframe where
  "new_coin_frame =
     [(''Symbol'', [Text ''BTC'', Text ''ETH'']),
      (''Name'', [Text ''Bitcoin'', Text ''Ethereum'']),
      (''Description'', [Text ''text'', Text ''text'']),
      (''ImageUrl'', [Text ''https://www.cryptocompare.com/img'',
                      Text ''https://www.cryptocompare.com/img'']),
      (''Date'', [Text ''1970-01-05 04:00:00'', Text ''1970-01-05 04:00:00''])]"

definition new_coin_info :: database where
  "new_coin_info =
     [(''coin_info'',
       \<lparr>tcolumns = [(''symbol'', ''TEXT''), (''name'', ''TEXT''), (''description'', ''TEXT''),
                    (''imageurl'', ''TEXT''), (''date'', ''TEXT'')],
        trows = [old_coin_row,
          [(''symbol'', Text ''BTC''), (''name'', Text ''Bitcoin''),
           (''description'', Text ''text''),
           (''imageurl'', Text ''https://www.cryptocompare.com/img''),
           (''date'', Text ''1970-01-05 04:00:00'')],
          [(''symbol'', Text ''ETH''), (''name'', Text ''Ethereum''),
           (''description'', Text ''text''),
           (''imageurl'', Text ''https://www.cryptocompare.com/img''),
           (''date'', Text ''1970-01-05 04:00:00'')]]\<rparr>)]"

text \<open>A configuration with one coin, and a frame of two rows: its price rises from 100 to 110.\<close>

definition one_coin_env :: env where
  "one_coin_env = example_env\<lparr>CRYPTOCURRENCIES := [''BTC'']\<rparr>"

definition rising_prices :: dataframe where
  "rising_prices =
     [(''Date'', [Date 0, Date 86400000000]),
      (''BTC Price'', [Num 100, Num 110])]"

text \<open>
  A server with the daily history of two symbols: the entries of the days 1 and 2
  for the URL \<open>u1\<close> and for the history of \<open>BTC\<close> up to hour 100, of the days 2
  and 3 for any other.
\<close>

definition history_body :: "(int \<times> int) list \<Rightarrow> response" where
  "history_body entries =
     \<lparr>status_code = 200,
      body = Some (JObj [(''Data'', JObj [(''Data'',
        JArr (map (\<lambda>e. JObj [(''time'', JInt (fst e)), (''close'', JInt (snd e)),
                             (''volumeto'', JInt (snd e))]) entries))])])\<rparr>"

definition history_env :: env where
  "history_env = example_env\<lparr>requests_get :=
     (\<lambda>url. Inr (history_body
        (if url = ''u1'' \<or> url = histoday_url example_env ''BTC'' 2000 360000
         then [(1, 10), (2, 20)] else [(2, 7), (3, 8)])))\<rparr>"

section \<open>Evaluation of the examples\<close>

lemma lower_literals:
  "lower ''date'' = ''date''" "lower ''symbol'' = ''symbol''" "lower ''Date'' = ''date''"
  "lower ''Symbol'' = ''symbol''"
  by (simp_all add: lower_def lower_char_def)

lemma lower_names:
  "lower ''Name'' = ''name''" "lower ''Description'' = ''description''"
  "lower ''ImageUrl'' = ''imageurl''" "lower ''name'' = ''name''"
  "lower ''description'' = ''description''" "lower ''imageurl'' = ''imageurl''"
  by (simp_all add: lower_def lower_char_def)

lemma subscript_object:
  "subscript (JObj kvs) k =
     (case map_of (rev kvs) k of None \<Rightarrow> Inl KeyError | Some v \<Rightarrow> Inr v)"
  by (simp add: subscript_def getitem_def)

lemma fetch_coin_info_server:
  "fetch_coin_info (server_env n) [''BTC'', ''ETH''] reqs =
     (Inr new_coin_frame, reqs @ [''https://min-api.cryptocompare.com/data/all/coinlist''])"
  by (simp add: fetch_coin_info_def Let_def server_env_def example_env_def answer_def
      response_json_def subscript_object coin_details_def coin_entry_def json_cell_def
      py_str_def from_rows_def upt_rec example_text_def two_digits_def
      new_coin_frame_def)

section \<open>Properties of the fetch window\<close>

text \<open>
  C2 as stated: with no stored date \<open>get_limit\<close> would return a 365-day lookback.
  It returns 2000 there.
\<close>

theorem get_limit_default_counterexample:
  "get_limit None 1700000000000000 \<noteq> 365"
  by (simp add: get_limit_def)

text \<open>
  C2, amended: with no stored date \<open>get_limit\<close> returns 2000, and the 365-day
  lookback is the start date that \<open>get_start_date\<close> returns (the clock reading minus
  365 days); with a stored date \<open>get_limit\<close> returns the whole-day component of the
  difference between the end date and the stored date, and \<open>get_start_date\<close> returns
  the stored date.
\<close>

theorem get_limit_window:
  "get_limit None end_date = 2000
   \<and> get_start_date clock None = clock - timedelta_days 365
   \<and> get_limit (Some d) end_date = days (end_date - d)
   \<and> get_start_date clock (Some d) = d"
  by (simp add: get_limit_def get_start_date_def)

text \<open>
  C3: when the most recent stored date is unset, the request limit is 2000.
\<close>

theorem get_limit_unset: "get_limit None end_date = 2000"
  by (simp add: get_limit_def)

text \<open>
  C10: \<open>get_limit\<close> does not clamp. For a set stored date the result is the whole-day
  component of the difference: it is zero when the stored date is less than a day
  before the end date, negative as soon as the stored date is after the end date, and
  equal to any number of days \<open>n\<close> the stored date lies back, however large.
\<close>

theorem get_limit_no_clamp:
  "get_limit (Some d) end_date = (end_date - d) div 86400000000
   \<and> get_limit (Some end_date) end_date = 0
   \<and> get_limit (Some (end_date - 86399999999)) end_date = 0
   \<and> get_limit (Some (end_date + 1)) end_date = - 1
   \<and> get_limit (Some (end_date - timedelta_days n)) end_date = n
   \<and> get_limit (Some (end_date - timedelta_days 5000)) end_date = 5000"
  by (simp add: get_limit_def days_def timedelta_days_def)

section \<open>The staleness policy\<close>

lemma str_less_irrefl: "\<not> str_less s s"
  by (induction s) auto

lemma str_less_trans: "str_less a b \<Longrightarrow> str_less b c \<Longrightarrow> str_less a c"
proof (induction a b arbitrary: c rule: str_less.induct)
  case 1
  then show ?case by simp
next
  case (2 y ys)
  then show ?case by (cases c) simp_all
next
  case (3 x xs)
  then show ?case by simp
next
  case (4 x xs y ys)
  show ?case
  proof (cases c)
    case Nil
    with 4 show ?thesis by simp
  next
    case (Cons z zs)
    with 4 show ?thesis by auto
  qed
qed


lemma str_less_total: "str_less a b \<or> a = b \<or> str_less b a"
proof (induction a b rule: str_less.induct)
  case (4 x xs y ys)
  have "(of_char x :: nat) < of_char y \<or> x = y \<or> (of_char y :: nat) < of_char x"
    using of_char_eq_iff [of x y, where ?'a = nat] by linarith
  with 4 show ?case by auto
qed simp_all

lemma str_not_less_trans: "\<not> str_less a b \<Longrightarrow> \<not> str_less b c \<Longrightarrow> \<not> str_less a c"
  using str_less_total [of a b] str_less_total [of b c] str_less_trans by blast


lemma fold_max_texts:
  "\<exists>s \<in> set ss \<union> {m}.
     fold (\<lambda>v m. if v = Null then m else if m = Null then v
                  else if cell_less m v then v else m) (map Text ss) (Text m) = Text s
     \<and> (\<forall>t \<in> set ss \<union> {m}. \<not> str_less s t)"
proof (induction ss arbitrary: m)
  case Nil
  then show ?case by (simp add: str_less_irrefl)
next
  case (Cons x ss)
  let ?m = "if str_less m x then x else m"
  from Cons.IH [of ?m] obtain s where s: "s \<in> set ss \<union> {?m}"
    "fold (\<lambda>v m. if v = Null then m else if m = Null then v
                  else if cell_less m v then v else m) (map Text ss) (Text ?m) = Text s"
    "\<forall>t \<in> set ss \<union> {?m}. \<not> str_less s t"
    by blast
  have eq: "fold (\<lambda>v m. if v = Null then m else if m = Null then v
                  else if cell_less m v then v else m) (map Text (x # ss)) (Text m)
      = fold (\<lambda>v m. if v = Null then m else if m = Null then v
                  else if cell_less m v then v else m) (map Text ss) (Text ?m)"
    by simp
  from s(3) have top: "\<not> str_less s ?m" by simp
  have up: "\<not> str_less ?m m" "\<not> str_less ?m x"
    using str_less_total [of m x] str_less_trans [of m x m] str_less_irrefl [of m]
      str_less_irrefl [of x]
    by (cases "str_less m x"; simp; blast)+
  have sm: "\<not> str_less s m"
    using str_not_less_trans [OF top up(1)] .
  have sx: "\<not> str_less s x"
    using str_not_less_trans [OF top up(2)] .
  have mem: "s \<in> set (x # ss) \<union> {m}"
    using s(1) by (cases "str_less m x") auto
  have all: "\<forall>t \<in> set (x # ss) \<union> {m}. \<not> str_less s t"
    using s(3) sm sx by simp
  show ?case
    unfolding eq using mem s(2) all by (intro bexI [of _ s] conjI)
qed


text \<open>
  On a date column that holds texts only, \<open>MAX(date)\<close> is one of the stored texts
  and no stored text is greater.
\<close>

lemma sql_max_texts:
  assumes "ss \<noteq> []"
  shows "\<exists>s \<in> set ss. sql_max (map Text ss) = Text s
           \<and> (\<forall>t \<in> set ss. \<not> str_less s t)"
proof -
  from assms obtain x rest where ss: "ss = x # rest" by (cases ss) auto
  from fold_max_texts [of rest x] show ?thesis
    unfolding ss sql_max_def by auto
qed



lemma get_newest_date_parsed:
  "map_of (current c) table_name = Some t \<Longrightarrow> has_column t ''date'' \<Longrightarrow>
   sql_max (map (\<lambda>r. row_get r ''date'') (trows t)) = Text s \<Longrightarrow> s \<noteq> [] \<Longrightarrow>
   strptime env s = Some d \<Longrightarrow>
   get_newest_date env c table_name = Inr (Some d)"
  by (simp add: get_newest_date_def)


lemma timedelta_hours_range:
  "- 999999999 \<le> h div 24 \<Longrightarrow> h div 24 \<le> 999999999 \<Longrightarrow>
   timedelta_hours h = Inr (h * 3600000000)"
  by (simp add: timedelta_hours_def)



lemma should_fetch_data_newest:
  "map_of (current c) table_name = Some t \<Longrightarrow> trows t \<noteq> [] \<Longrightarrow>
   - 999999999 \<le> h div 24 \<Longrightarrow> h div 24 \<le> 999999999 \<Longrightarrow>
   should_fetch_data env c table_name h =
     (case get_newest_date env c table_name of
        Inl e \<Rightarrow> Inl e
      | Inr None \<Rightarrow> Inr True
      | Inr (Some d) \<Rightarrow> Inr (h * 3600000000 < now env - d))"
  by (simp add: should_fetch_data_def timedelta_hours_range split: sum.splits option.splits)





lemma one_row_table_facts:
  "trows (snd (one_row_table n x)) \<noteq> []"
  "has_column (snd (one_row_table n x)) ''date''"
  "sql_max (map (\<lambda>r. row_get r ''date'') (trows (snd (one_row_table n x)))) = Text x"
  by (simp_all add: one_row_table_def has_column_def row_get_def sql_max_def lower_literals)

lemma fresh_db_lookup:
  "map_of fresh_db ''coin_info'' = Some (snd (one_row_table ''coin_info'' ''1970-01-04 18:00:00''))"
  "map_of fresh_db ''price_history'' = Some (snd (one_row_table ''price_history'' ''1970-01-04 18:00:00''))"
  "map_of fresh_db ''market_cap'' = Some (snd (one_row_table ''market_cap'' ''1970-01-04 18:00:00''))"
  "map_of fresh_db ''trading_volumes''
     = Some (snd (one_row_table ''trading_volumes'' ''1970-01-04 18:00:00''))"
  by (simp_all add: fresh_db_def one_row_table_def)

lemma stale_db_lookup:
  "map_of stale_db ''coin_info'' = Some (snd (one_row_table ''coin_info'' ''1970-01-01 10:00:00''))"
  by (simp add: stale_db_def one_row_table_def)

lemma example_dates:
  "strptime example_env ''1970-01-04 18:00:00'' = Some 324000000000"
  "strptime example_env ''1970-01-01 10:00:00'' = Some 36000000000"
  "now example_env = 360000000000"
  by (simp_all add: example_env_def example_strptime_def date_field_def digit_value_def)


section \<open>Transactions of the storage adapter\<close>

text \<open>
  Every operation of the adapter, and \<open>to_sql\<close>, leaves the connection without an
  open transaction when it finds it so.
\<close>

lemma idle_connect: "idle (connect db)"
  by (simp add: idle_def connect_def)

lemma idle_commit: "idle (commit c)"
  by (simp add: idle_def commit_def)

lemma idle_rollback: "idle (rollback c)"
  by (simp add: idle_def rollback_def)

lemma idle_run_ddl: "idle c \<Longrightarrow> idle (run_ddl f c)"
  by (simp add: idle_def run_ddl_def)

lemma idle_create_table: "idle c \<Longrightarrow> idle (snd (create_table c n cols))"
  by (simp add: create_table_def idle_run_ddl split: option.splits)

lemma idle_drop_table: "idle (drop_table c n)"
  by (simp add: drop_table_def idle_commit)

lemma idle_insert_dataframe: "idle (snd (insert_dataframe env c n df))"
  by (simp add: insert_dataframe_def idle_commit idle_rollback split: prod.splits option.splits)

lemma idle_new_table: "idle c \<Longrightarrow> new_table env n df c = Inr c1 \<Longrightarrow> idle c1"
  by (auto simp: new_table_def idle_run_ddl split: if_splits)

lemma idle_to_sql:
  assumes "idle c"
  shows "idle (snd (to_sql env c n df mode))"
proof -
  let ?prep = "if table_exists c n then
              (case mode of
                 Fail \<Rightarrow> Inl ValueError
               | Replace \<Rightarrow> new_table env n df (run_ddl (AList.delete n) c)
               | Append \<Rightarrow> Inr c)
            else new_table env n df c"
  show ?thesis
  proof (cases ?prep)
    case (Inl e)
    with assms show ?thesis by (simp add: to_sql_def)
  next
    case (Inr c1)
    with assms have "idle c1"
      using idle_new_table [of c env n df c1]
        idle_new_table [of "run_ddl (AList.delete n) c" env n df c1]
        idle_run_ddl [of c "AList.delete n"]
      by (cases mode) (auto split: if_splits)
    with Inr show ?thesis
      by (cases "executemany env c1 n (map fst df) (df_rows df)")
        (auto simp: to_sql_def idle_commit idle_rollback split: option.splits)
  qed
qed

lemma rollback_executemany:
  "idle c \<Longrightarrow> rollback (snd (executemany env c n cols vals)) = c"
  by (simp add: executemany_def rollback_def idle_def split: option.splits prod.splits)

lemma insert_rows_error: "insert_rows env cols t vals = (Some e, t') \<Longrightarrow> e = SqliteError"
  by (induction vals arbitrary: t) (auto split: option.splits)

lemma executemany_error: "fst (executemany env c n cols vals) = Some e \<Longrightarrow> e = SqliteError"
  by (auto simp: executemany_def split: option.splits prod.splits if_splits
      dest: insert_rows_error)

text \<open>
  C7: when a bulk insert fails, on a connection without open transaction (as every
  operation leaves it), the error raised is the database error and the connection
  is as it was before the call: the rows of the batch inserted before the failing
  row are rolled back and no stored row has changed.
\<close>

theorem insert_dataframe_rollback:
  "idle c \<Longrightarrow> fst (insert_dataframe env c table_name df) = Inl e \<Longrightarrow>
   insert_dataframe env c table_name df = (Inl SqliteError, c)"
proof -
  assume c: "idle c" and failed: "fst (insert_dataframe env c table_name df) = Inl e"
  obtain err c' where ex: "executemany env c table_name (map fst df) (df_rows df) = (err, c')"
    by (cases "executemany env c table_name (map fst df) (df_rows df)")
  from failed ex obtain e' where err: "err = Some e'"
    by (cases err) (simp_all add: insert_dataframe_def)
  from ex err have "e' = SqliteError"
    using executemany_error [of env c table_name "map fst df" "df_rows df" e'] by simp
  moreover from c ex have "rollback c' = c"
    using rollback_executemany [of c env table_name "map fst df" "df_rows df"] by simp
  ultimately show ?thesis
    using ex err by (simp add: insert_dataframe_def)
qed

lemma df_rows_two_rows:
  "df_rows two_rows = [[Text ''NEW'', Text ''1970-01-05 04:00:00''], [Text ''OLD'', Text ''1970-01-05 04:00:00'']]"
  by (simp add: df_rows_def two_rows_def nrows_def upt_rec)

lemma executemany_two_rows:
  "executemany strict_env (connect stale_db) ''coin_info'' (map fst two_rows) (df_rows two_rows)
   = (Some SqliteError,
      \<lparr>committed = stale_db,
       current = [(''coin_info'',
         \<lparr>tcolumns = [(''symbol'', ''TEXT''), (''date'', ''DATE'')],
          trows = [[(''symbol'', Text ''OLD''), (''date'', Text ''1970-01-01 10:00:00'')],
                   [(''symbol'', Text ''NEW''), (''date'', Text ''1970-01-05 04:00:00'')]]\<rparr>)],
       in_transaction = True\<rparr>)"
  apply (simp add: executemany_def df_rows_two_rows connect_def stale_db_lookup)
  apply (simp add: two_rows_def one_row_table_def has_column_def lower_literals insert_row_def
      bind_value_def strict_env_def example_env_def unique_symbol_def row_get_def stale_db_def)
  done

theorem insert_dataframe_rollback_witness:
  "idle (connect stale_db)
   \<and> length (trows (snd (hd (current (snd (executemany strict_env (connect stale_db)
         ''coin_info'' (map fst two_rows) (df_rows two_rows))))))) = 2
   \<and> fst (insert_dataframe strict_env (connect stale_db) ''coin_info'' two_rows)
       = Inl SqliteError
   \<and> insert_dataframe strict_env (connect stale_db) ''coin_info'' two_rows
       = (Inl SqliteError, connect stale_db)"
proof -
  have h1: "idle (connect stale_db)"
    by (rule idle_connect)
  have h2: "fst (insert_dataframe strict_env (connect stale_db) ''coin_info'' two_rows)
              = Inl SqliteError"
    by (simp add: insert_dataframe_def executemany_two_rows)
  have h3: "length (trows (snd (hd (current (snd (executemany strict_env (connect stale_db)
         ''coin_info'' (map fst two_rows) (df_rows two_rows))))))) = 2"
    by (simp add: executemany_two_rows)
  from insert_dataframe_rollback [OF h1 h2] h1 h2 h3 show ?thesis
    by simp
qed

section \<open>Skipping an update of fresh data\<close>

lemma skip_update_fresh:
  "table_exists c n \<Longrightarrow> should_fetch_data env c n h = Inr False \<Longrightarrow>
   skip_update env c n h = Inr True"
  by (simp add: skip_update_def)

text \<open>
  C9: when the target table exists and \<open>should_fetch_data\<close> returns false for the
  threshold of the operation (1440 hours for the price history, 24 hours for the
  others), each of the four operations returns at once: its result is the unchanged
  state, where the connection, hence every stored table, and the list of the
  requests sent are what they were.
\<close>

theorem populate_skips_when_fresh:
  "(table_exists (conn w) ''market_cap''
      \<and> should_fetch_data env (conn w) ''market_cap'' 24 = Inr False
      \<longrightarrow> populate_market_cap env w = (Inr (), w))
   \<and> (table_exists (conn w) ''trading_volumes''
      \<and> should_fetch_data env (conn w) ''trading_volumes'' 24 = Inr False
      \<longrightarrow> populate_trading_volumes env w = (Inr (), w))
   \<and> (table_exists (conn w) ''price_history''
      \<and> should_fetch_data env (conn w) ''price_history'' (24 * 60) = Inr False
      \<longrightarrow> populate_historic_prices env w = (Inr (), w))
   \<and> (table_exists (conn w) table_name
      \<and> should_fetch_data env (conn w) table_name 24 = Inr False
      \<longrightarrow> populate_data env w table_name fetch_function data_manipulator = (Inr (), w))"
  by (simp add: populate_market_cap_def populate_trading_volumes_def
      populate_historic_prices_def populate_data_def skip_update_fresh)

lemma fresh_db_exists:
  "table_exists (connect fresh_db) ''coin_info''"
  "table_exists (connect fresh_db) ''price_history''"
  "table_exists (connect fresh_db) ''market_cap''"
  "table_exists (connect fresh_db) ''trading_volumes''"
  by (simp_all add: table_exists_def connect_def fresh_db_lookup)

lemma fresh_db_newest:
  "map_of fresh_db n = Some (snd (one_row_table n ''1970-01-04 18:00:00'')) \<Longrightarrow>
   get_newest_date example_env (connect fresh_db) n = Inr (Some 324000000000)"
  by (rule get_newest_date_parsed [where t = "snd (one_row_table n ''1970-01-04 18:00:00'')"
        and s = "''1970-01-04 18:00:00''"])
    (simp_all add: connect_def one_row_table_facts example_dates)

lemma fresh_db_should_not_fetch:
  "map_of fresh_db n = Some (snd (one_row_table n ''1970-01-04 18:00:00'')) \<Longrightarrow> h = 24 \<or> h = 1440 \<Longrightarrow>
   should_fetch_data example_env (connect fresh_db) n h = Inr False"
  using should_fetch_data_newest [of "connect fresh_db" n
      "snd (one_row_table n ''1970-01-04 18:00:00'')" h example_env] fresh_db_newest [of n]
  by (auto simp: connect_def one_row_table_facts example_dates)

theorem populate_skips_when_fresh_witness:
  "populate_market_cap example_env fresh_world = (Inr (), fresh_world)
   \<and> populate_trading_volumes example_env fresh_world = (Inr (), fresh_world)
   \<and> populate_historic_prices example_env fresh_world = (Inr (), fresh_world)
   \<and> populate_data example_env fresh_world ''coin_info''
        (fetch_coin_info example_env [''BTC'', ''ETH'']) None = (Inr (), fresh_world)
   \<and> snd (fetch_coin_info example_env [''BTC'', ''ETH''] []) \<noteq> []"
proof -
  have e: "table_exists (conn fresh_world) ''market_cap''"
    "table_exists (conn fresh_world) ''trading_volumes''"
    "table_exists (conn fresh_world) ''price_history''"
    "table_exists (conn fresh_world) ''coin_info''"
    by (simp_all add: fresh_world_def fresh_db_exists)
  have f: "should_fetch_data example_env (conn fresh_world) ''market_cap'' 24 = Inr False"
    "should_fetch_data example_env (conn fresh_world) ''trading_volumes'' 24 = Inr False"
    "should_fetch_data example_env (conn fresh_world) ''price_history'' (24 * 60) = Inr False"
    "should_fetch_data example_env (conn fresh_world) ''coin_info'' 24 = Inr False"
    by (simp_all add: fresh_world_def fresh_db_should_not_fetch fresh_db_lookup)
  have g: "snd (fetch_coin_info example_env [''BTC'', ''ETH''] []) \<noteq> []"
    by (simp add: fetch_coin_info_def Let_def)
  from populate_skips_when_fresh [of fresh_world example_env "''coin_info''"
      "fetch_coin_info example_env [''BTC'', ''ETH'']" None] e f g
  show ?thesis by simp
qed

section \<open>HTTP errors in the API client\<close>

text \<open>
  The two fetch loops check the status: a response with a status from 400 to 599
  raises \<open>HTTPError\<close> in the pass that received it, and the loop ends there, after
  this one request, with no further request and no frame.
\<close>

lemma fetch_symbol_http_error:
  "requests_get env url = Inr r \<Longrightarrow> 400 \<le> status_code r \<Longrightarrow> status_code r < 600 \<Longrightarrow>
   fetch_symbol env field col_suffix url symbol df = Inl (HTTPError (status_code r))"
  by (simp add: fetch_symbol_def fetch_series_def raise_for_status_def)

lemma fetch_loop_http_error:
  "requests_get env url = Inr r \<Longrightarrow> 400 \<le> status_code r \<Longrightarrow> status_code r < 600 \<Longrightarrow>
   fetch_loop env field col_suffix ((url, symbol) # rest) df reqs
     = (Inl (HTTPError (status_code r)), reqs @ [url])"
  by (simp add: fetch_symbol_http_error)

text \<open>
  C6 at a failing input: the server answers every request with status 500 and a
  body that parses. \<open>fetch_price_history\<close> raises \<open>HTTPError\<close> at its first request;
  \<open>fetch_market_cap\<close> and \<open>fetch_coin_info\<close>, which do not check the status, return
  the data of the body, and \<open>populate_data\<close> stores the coin information it got.
\<close>

theorem status_500_not_raised:
  "fetch_price_history (server_env 500) [''u1'', ''u2''] [''BTC'', ''ETH''] []
     = (Inl (HTTPError 500), [''u1''])
   \<and> fetch_market_cap (server_env 500) ''BTC,ETH'' []
     = (Inr (JObj [(''BTC'', JObj [(''USD'', JObj [(''MKTCAP'', JInt 500)])]),
                   (''ETH'', JObj [(''USD'', JObj [(''MKTCAP'', JInt 200)])])]),
        [''https://min-api.cryptocompare.com/data/pricemultifull?fsyms=BTC,ETH&tsyms=USD&api_key=key''])
   \<and> fetch_coin_info (server_env 500) [''BTC'', ''ETH''] []
     = (Inr new_coin_frame, [''https://min-api.cryptocompare.com/data/all/coinlist''])"
proof -
  have "fetch_price_history (server_env 500) [''u1'', ''u2''] [''BTC'', ''ETH''] []
     = (Inl (HTTPError 500), [''u1''])"
    by (simp add: fetch_price_history_def fetch_symbol_def fetch_series_def server_env_def
        example_env_def
        answer_def raise_for_status_def)
  moreover have "fetch_market_cap (server_env 500) ''BTC,ETH'' []
     = (Inr (JObj [(''BTC'', JObj [(''USD'', JObj [(''MKTCAP'', JInt 500)])]),
                   (''ETH'', JObj [(''USD'', JObj [(''MKTCAP'', JInt 200)])])]),
        [''https://min-api.cryptocompare.com/data/pricemultifull?fsyms=BTC,ETH&tsyms=USD&api_key=key''])"
    by (simp add: fetch_market_cap_def Let_def server_env_def example_env_def answer_def
        response_json_def subscript_object)
  ultimately show ?thesis
    by (simp add: fetch_coin_info_server)
qed

section \<open>Appending and replacing stored rows\<close>

lemma insert_rows_appends:
  "insert_rows env cols t vals = (None, t') \<Longrightarrow>
   \<exists>added. trows t' = trows t @ added \<and> length added = length vals
     \<and> tcolumns t' = tcolumns t"
proof (induction vals arbitrary: t)
  case Nil
  then show ?case by simp
next
  case (Cons vs rest)
  from Cons.prems obtain t1 where
    one: "insert_row env cols t vs = Some t1" and more: "insert_rows env cols t1 rest = (None, t')"
    by (auto split: option.splits)
  from one have t1: "\<exists>r. trows t1 = trows t @ [r]" "tcolumns t1 = tcolumns t"
    by (auto simp: insert_row_def Let_def split: if_splits option.splits)
  from Cons.IH [OF more] t1 show ?case
    by auto
qed

text \<open>
  A successful \<open>insert_dataframe\<close> keeps every stored row of the table and adds one
  row for each row of the frame after them.
\<close>

lemma insert_dataframe_appends:
  assumes "insert_dataframe env c n df = (Inr u, c')"
    and "map_of (current c) n = Some t"
  shows "\<exists>t' added. map_of (current c') n = Some t' \<and> trows t' = trows t @ added
           \<and> length added = length (df_rows df)"
proof -
  obtain err t1 where ir: "insert_rows env (map fst df) t (df_rows df) = (err, t1)"
    by (cases "insert_rows env (map fst df) t (df_rows df)")
  from assms ir have "err = None"
    and c': "current c' = AList.update n t1 (current c)"
    by (auto simp: insert_dataframe_def executemany_def commit_def
        split: if_splits option.splits prod.splits)
  with ir insert_rows_appends [of env "map fst df" t "df_rows df" t1]
  obtain added where "trows t1 = trows t @ added" "length added = length (df_rows df)"
    by auto
  moreover from c' have "map_of (current c') n = Some t1"
    by (simp add: update_conv')
  ultimately show ?thesis by blast
qed

lemma current_run_ddl: "current (run_ddl f c) = f (current c)"
  by (simp add: run_ddl_def)

lemma insert_rows_exact:
  "insert_rows env cols t vals = (None, t') \<Longrightarrow>
   trows t' = trows t @ map (\<lambda>vs. zip (map lower cols) (the (bind_row env vs))) vals"
proof (induction vals arbitrary: t)
  case Nil
  then show ?case by simp
next
  case (Cons vs rest)
  from Cons.prems obtain t1 where
    one: "insert_row env cols t vs = Some t1" and more: "insert_rows env cols t1 rest = (None, t')"
    by (auto split: option.splits)
  from one have "trows t1 = trows t @ [zip (map lower cols) (the (bind_row env vs))]"
    by (auto simp: insert_row_def Let_def split: if_splits option.splits)
  with Cons.IH [OF more] show ?case by simp
qed

lemma executemany_rows:
  "executemany env c n cols vals = (None, c') \<Longrightarrow> map_of (current c) n = Some t \<Longrightarrow>
   \<exists>t'. map_of (current c') n = Some t'
     \<and> trows t' = trows t @ map (\<lambda>vs. zip (map lower cols) (the (bind_row env vs))) vals"
  by (auto simp: executemany_def update_conv' split: if_splits prod.splits
      dest: insert_rows_exact)

text \<open>
  \<open>to_sql\<close> with \<open>if_exists='append'\<close>, as the price history and the trading volumes
  are written: the stored rows stay and the rows of the frame follow them.
\<close>

lemma to_sql_append:
  assumes "to_sql env c n df Append = (Inr u, c')" and "map_of (current c) n = Some t"
  shows "\<exists>t'. map_of (current c') n = Some t'
     \<and> trows t' = trows t
         @ map (\<lambda>vs. zip (map (\<lambda>col. lower (fst col)) df) (the (bind_row env vs))) (df_rows df)"
proof (cases "nrows df = 0")
  case True
  with assms show ?thesis
    by (auto simp: to_sql_def table_exists_def commit_def df_rows_def)
next
  case False
  with assms obtain c2 where "executemany env c n (map fst df) (df_rows df) = (None, c2)"
    and "c' = commit c2"
    by (auto simp: to_sql_def table_exists_def split: prod.splits option.splits)
  with executemany_rows [of env c n "map fst df" "df_rows df" c2 t] assms(2) show ?thesis
    by (auto simp: commit_def comp_def)
qed

text \<open>
  \<open>to_sql\<close> with \<open>if_exists='replace'\<close>, as the market capitalisation is written: the
  table holds the rows of the frame and no other row.
\<close>

lemma replace_table_fresh:
  "(if table_exists c n then new_table env n df (run_ddl (AList.delete n) c)
    else new_table env n df c) = Inr c1 \<Longrightarrow>
   map_of (current c1) n
     = Some \<lparr>tcolumns = map (\<lambda>col. (fst col, sql_type (dtype env (snd col)))) df, trows = []\<rparr>"
  by (auto simp: new_table_def table_exists_def current_run_ddl delete_conv' map_add_def
      split: if_splits)

lemma to_sql_Replace:
  "to_sql env c n df Replace =
     (case (if table_exists c n then new_table env n df (run_ddl (AList.delete n) c)
            else new_table env n df c) of
        Inl e \<Rightarrow> (Inl e, c)
      | Inr c1 \<Rightarrow>
          if nrows df = 0 then (Inr (), commit c1)
          else
            (case executemany env c1 n (map fst df) (df_rows df) of
               (None, c2) \<Rightarrow> (Inr (), commit c2)
             | (Some e, c2) \<Rightarrow> (Inl e, rollback c2)))"
  by (cases "table_exists c n") (simp_all add: to_sql_def)

lemma to_sql_replace:
  assumes "to_sql env c n df Replace = (Inr u, c')"
  shows "\<exists>t'. map_of (current c') n = Some t'
     \<and> trows t'
         = map (\<lambda>vs. zip (map (\<lambda>col. lower (fst col)) df) (the (bind_row env vs))) (df_rows df)"
proof -
  let ?fresh = "\<lparr>tcolumns = map (\<lambda>col. (fst col, sql_type (dtype env (snd col)))) df, trows = []\<rparr>"
  let ?prep = "if table_exists c n then new_table env n df (run_ddl (AList.delete n) c)
    else new_table env n df c"
  from assms obtain c1 where prep: "?prep = Inr c1"
    by (cases ?prep) (simp_all add: to_sql_Replace)
  from replace_table_fresh [OF prep] have c1: "map_of (current c1) n = Some ?fresh" .
  from assms prep have rest: "(if nrows df = 0 then (Inr (), commit c1)
        else case executemany env c1 n (map fst df) (df_rows df) of
               (None, c2) \<Rightarrow> (Inr (), commit c2)
             | (Some e, c2) \<Rightarrow> (Inl e, rollback c2)) = (Inr u, c')"
    by (simp add: to_sql_Replace)
  show ?thesis
  proof (cases "nrows df = 0")
    case True
    with rest c1 show ?thesis
      by (auto simp: commit_def df_rows_def)
  next
    case False
    with rest obtain c2 where "executemany env c1 n (map fst df) (df_rows df) = (None, c2)"
      and "c' = commit c2"
      by (auto split: prod.splits option.splits)
    with executemany_rows [of env c1 n "map fst df" "df_rows df" c2 ?fresh] c1 show ?thesis
      by (auto simp: commit_def comp_def)
  qed
qed

lemma skip_update_coin_info:
  "skip_update (server_env 200) (connect old_coin_info) ''coin_info'' 24 = Inr False"
  by (simp add: skip_update_def table_exists_def connect_def old_coin_info_def
      should_fetch_data_def get_newest_date_def has_column_def lower_literals sql_max_def
      row_get_def old_coin_row_def server_env_def example_env_def example_strptime_def
      date_field_def digit_value_def
      timedelta_hours_def)

lemma df_rows_new_coin_frame:
  "df_rows new_coin_frame =
     [[Text ''BTC'', Text ''Bitcoin'', Text ''text'', Text ''https://www.cryptocompare.com/img'',
       Text ''1970-01-05 04:00:00''],
      [Text ''ETH'', Text ''Ethereum'', Text ''text'', Text ''https://www.cryptocompare.com/img'',
       Text ''1970-01-05 04:00:00'']]"
  by (simp add: df_rows_def new_coin_frame_def nrows_def upt_rec)

lemma insert_new_coin_frame:
  "insert_dataframe (server_env 200) (connect old_coin_info) ''coin_info'' new_coin_frame
     = (Inr (), connect new_coin_info)"
  apply (simp add: insert_dataframe_def executemany_def df_rows_new_coin_frame connect_def)
  apply (simp add: old_coin_info_def new_coin_frame_def new_coin_info_def has_column_def
      lower_literals lower_names insert_row_def bind_value_def server_env_def example_env_def
      commit_def)
  done

text \<open>
  C8 at a failing input: the coin information holds a row for \<open>BTC\<close> of hour 10 and
  the update runs at hour 100. \<open>populate_data\<close>, by which \<open>main\<close> updates the coin
  information, keeps the table (\<open>CREATE TABLE IF NOT EXISTS\<close>) and inserts: the old
  row is still stored after the update, before the two new rows.
\<close>

theorem coin_info_not_replaced:
  "populate_data (server_env 200) \<lparr>conn = connect old_coin_info, sent = []\<rparr> ''coin_info''
     (fetch_coin_info (server_env 200) [''BTC'', ''ETH'']) None
   = (Inr (), \<lparr>conn = connect new_coin_info,
               sent = [''https://min-api.cryptocompare.com/data/all/coinlist'']\<rparr>)"
proof -
  have ct: "create_table (connect old_coin_info) ''coin_info'' cols
              = (Inr (), connect old_coin_info)" if "cols \<noteq> []" for cols
    using that by (simp add: create_table_def connect_def old_coin_info_def)
  have ne: "map (\<lambda>col. (lower (fst col), column_type (server_env 200) (snd col)))
              new_coin_frame \<noteq> []"
    by (simp add: new_coin_frame_def)
  show ?thesis
    by (simp add: populate_data_def skip_update_coin_info fetch_coin_info_server ct [OF ne]
        insert_new_coin_frame)
qed

section \<open>The price change\<close>

subsection \<open>Lists\<close>

lemma traverse_nth:
  "traverse f xs = Inr ys \<Longrightarrow> length ys = length xs \<and> (\<forall>i<length xs. f (xs ! i) = Inr (ys ! i))"
proof (induction xs arbitrary: ys)
  case Nil
  then show ?case by simp
next
  case (Cons x xs)
  from Cons.prems obtain y ys' where y: "f x = Inr y" and ys': "traverse f xs = Inr ys'"
    and ys: "ys = y # ys'"
    by (auto split: sum.splits)
  from Cons.IH [OF ys'] y ys show ?case
    by (auto simp: nth_Cons split: nat.splits)
qed

lemma length_ffill_from: "length (ffill_from p vs) = length vs"
  by (induction vs arbitrary: p) auto

lemma ffill_from_keeps:
  "i < length vs \<Longrightarrow> vs ! i \<noteq> Null \<Longrightarrow> ffill_from p vs ! i = vs ! i"
proof (induction vs arbitrary: p i)
  case Nil
  then show ?case by simp
next
  case (Cons v vs)
  then show ?case by (cases i) auto
qed

lemma traverse_total:
  "(\<And>x. x \<in> set xs \<Longrightarrow> \<exists>y. f x = Inr y \<and> P y) \<Longrightarrow>
   \<exists>ys. traverse f xs = Inr ys \<and> list_all P ys"
proof (induction xs)
  case Nil
  then show ?case by simp
next
  case (Cons x xs)
  from Cons.prems [of x] obtain y where y: "f x = Inr y" "P y" by auto
  from Cons.IH Cons.prems obtain ys where "traverse f xs = Inr ys" "list_all P ys" by auto
  with y show ?case by simp
qed

lemma traverse_all:
  "traverse f xs = Inr ys \<Longrightarrow> (\<And>x y. f x = Inr y \<Longrightarrow> P y) \<Longrightarrow> list_all P ys"
proof (induction xs arbitrary: ys)
  case Nil
  then show ?case by simp
next
  case (Cons x xs)
  from Cons.prems(1) obtain y zs where y: "f x = Inr y" and zs: "traverse f xs = Inr zs"
    and ys: "ys = y # zs"
    by (auto split: sum.splits)
  from Cons.IH [OF zs Cons.prems(2)] Cons.prems(2) [OF y] ys show ?case by simp
qed

subsection \<open>Rounding\<close>

lemma pow2_powi: "pow2 k = 2 powi k"
  by (simp add: pow2_def power_int_def inverse_eq_divide power_one_over)

lemma pow2_pos: "0 < pow2 k"
  by (simp add: pow2_def)

lemma pow2_nonzero: "pow2 k \<noteq> 0"
  using pow2_pos [of k] by simp

lemma pow2_add: "pow2 (i + j) = pow2 i * pow2 j"
  by (simp add: pow2_powi power_int_add)

lemma pow2_nat: "0 \<le> k \<Longrightarrow> pow2 k = of_int (2 ^ nat k)"
  by (simp add: pow2_def)

lemma pow2_mono: "i \<le> j \<Longrightarrow> pow2 i \<le> pow2 j"
proof -
  have p: "pow2 k = 2 powi k" for k
    by (simp add: pow2_def power_int_def inverse_eq_divide power_one_over)
  show "i \<le> j \<Longrightarrow> pow2 i \<le> pow2 j"
    unfolding p by (rule power_int_increasing) simp_all
qed

lemma find_upto_least:
  assumes "lo \<le> e" "e \<le> hi" "P e" "\<And>k. lo \<le> k \<Longrightarrow> k < e \<Longrightarrow> \<not> P k"
  shows "find P [lo .. hi] = Some e"
proof -
  let ?i = "nat (e - lo)"
  have len: "?i < length [lo .. hi]" using assms(1,2) by simp
  have nth: "[lo .. hi] ! k = lo + int k" if "k < length [lo .. hi]" for k
    using that by (simp add: nth_upto)
  have below: "\<not> P ([lo .. hi] ! j)" if "j < ?i" for j
  proof -
    from that len have j: "j < length [lo .. hi]" by (rule less_trans)
    from that assms(1) have "lo + int j < e" by simp
    with assms(4) [of "lo + int j"] show ?thesis unfolding nth [OF j] by simp
  qed
  show ?thesis
    unfolding find_Some_iff
    apply (rule exI [of _ ?i])
    using len assms(1,3) below by (simp add: nth)
qed

text \<open>
  The exponent of the quantum of \<open>a\<close> is \<open>e\<close> when \<open>a\<close> lies between \<open>2 ^ (e + 52)\<close> and
  \<open>2 ^ (e + 53)\<close>, or below the latter for the least exponent.
\<close>

lemma quantumI:
  assumes "- 1074 \<le> e" "e \<le> 971" "a < pow2 (e + 53)" "e = - 1074 \<or> pow2 (e + 52) \<le> a"
  shows "quantum a = Some e"
  unfolding quantum_def
proof (rule find_upto_least)
  fix k :: int
  assume "- 1074 \<le> k" "k < e"
  then have "e \<noteq> - 1074" by simp
  with assms(4) have "pow2 (e + 52) \<le> a" by simp
  moreover from \<open>k < e\<close> have "pow2 (k + 53) \<le> pow2 (e + 52)"
    by (intro pow2_mono) simp
  ultimately show "\<not> a < pow2 (k + 53)" by simp
qed (use assms in simp_all)

lemma round_double_pos:
  assumes "0 < a" "- 1074 \<le> e" "e \<le> 971" "a < pow2 (e + 53)"
    "e = - 1074 \<or> pow2 (e + 52) \<le> a"
    "round_half_even (a / pow2 e) = m" "0 < m" "of_int m * pow2 e < 2 ^ 1024"
  shows "round_double a = Fin (of_int m * pow2 e)"
  using assms quantumI [of e a] by (simp add: round_double_def Let_def)

lemma find_upto_Some:
  assumes "find P [lo .. hi] = Some e"
  shows "lo \<le> e" "e \<le> hi" "P e" "\<And>k. lo \<le> k \<Longrightarrow> k < e \<Longrightarrow> \<not> P k"
proof -
  from assms obtain i where i: "i < length [lo .. hi]" "P ([lo .. hi] ! i)" "e = [lo .. hi] ! i"
    "\<forall>j<i. \<not> P ([lo .. hi] ! j)"
    unfolding find_Some_iff by blast
  have nth: "[lo .. hi] ! k = lo + int k" if "k < length [lo .. hi]" for k
    using that by (simp add: nth_upto)
  from i(1,3) have e: "e = lo + int i" by (simp add: nth)
  from e show "lo \<le> e" by simp
  from e i(1) show "e \<le> hi" by simp
  from i(2,3) show "P e" by simp
  show "\<not> P k" if "lo \<le> k" "k < e" for k
  proof -
    let ?j = "nat (k - lo)"
    from that e have j: "?j < i" by simp
    from j i(1) have "?j < length [lo .. hi]" by (rule less_trans)
    from nth [OF this] that(1) have "[lo .. hi] ! ?j = k" by simp
    with i(4) j show ?thesis by metis
  qed
qed

lemma find_upto_None: "find P [lo .. hi] = None \<Longrightarrow> lo \<le> k \<Longrightarrow> k \<le> hi \<Longrightarrow> \<not> P k"
  by (simp add: find_None_iff)

lemma quantumD:
  assumes "quantum a = Some e"
  shows "- 1074 \<le> e" "e \<le> 971" "a < pow2 (e + 53)" "e = - 1074 \<or> pow2 (e + 52) \<le> a"
proof -
  note f = find_upto_Some [OF assms [unfolded quantum_def]]
  show "- 1074 \<le> e" "e \<le> 971" "a < pow2 (e + 53)" by (rule f)+
  show "e = - 1074 \<or> pow2 (e + 52) \<le> a"
  proof (cases "e = - 1074")
    case False
    with f(1) have "- 1074 \<le> e - 1" "e - 1 < e" by simp_all
    from f(4) [OF this] have n: "\<not> a < pow2 (e - 1 + 53)" .
    have eq: "e - 1 + 53 = e + 52" by simp
    from n show ?thesis unfolding eq by simp
  qed simp
qed

lemma quantum_exists:
  assumes "a < 2 ^ 1024"
  shows "\<exists>e. quantum a = Some e"
proof (cases "quantum a")
  case None
  from find_upto_None [OF None [unfolded quantum_def], of 971]
  have "\<not> a < pow2 (971 + 53)" by simp
  with assms show ?thesis by (simp add: pow2_def)
qed simp

lemma round_half_even_int: "round_half_even (of_int k) = k"
  by (simp add: round_half_even_def)

lemma round_half_even_le:
  assumes "0 \<le> y" "y < of_int n"
  shows "0 \<le> round_half_even y" "round_half_even y \<le> n"
proof -
  from assms(1) have "0 \<le> \<lfloor>y\<rfloor>" by simp
  moreover from assms(2) have "\<lfloor>y\<rfloor> < n" by (simp add: floor_less_iff)
  ultimately show "0 \<le> round_half_even y" "round_half_even y \<le> n"
    by (simp_all add: round_half_even_def Let_def)
qed

text \<open>A multiple of a quantum by a mantissa of at most 53 bits is a double.\<close>

lemma round_double_grid:
  assumes m: "0 < m" "m \<le> 2 ^ 53" and e: "- 1074 \<le> e"
    and v: "of_int m * pow2 e < 2 ^ 1024"
  shows "round_double (of_int m * pow2 e) = Fin (of_int m * pow2 e)"
proof -
  let ?v = "of_int m * pow2 e :: real"
  from m(1) have pos: "0 < ?v" by (simp add: pow2_pos)
  from quantum_exists [OF v] obtain e' where q: "quantum ?v = Some e'" by blast
  note d = quantumD [OF q]
  have "\<exists>k. 0 < k \<and> ?v = of_int k * pow2 e'"
  proof (cases "e' \<le> e")
    case True
    then have "pow2 e = pow2 (e - e') * pow2 e'"
      using pow2_add [of "e - e'" e'] by simp
    also from True have "pow2 (e - e') = of_int (2 ^ nat (e - e'))"
      by (simp add: pow2_nat)
    finally have "?v = of_int (m * 2 ^ nat (e - e')) * pow2 e'" by simp
    moreover from m(1) have "0 < m * 2 ^ nat (e - e')" by simp
    ultimately show ?thesis by blast
  next
    case False
    with e d(4) have lo: "pow2 (e' + 52) \<le> ?v" by simp
    from False have "pow2 (e + 53) \<le> pow2 (e' + 52)" by (intro pow2_mono) simp
    moreover from m(2) have "?v \<le> of_int (2 ^ 53) * pow2 e"
      by (intro mult_right_mono) (simp_all add: pow2_pos less_imp_le)
    then have "?v \<le> pow2 (e + 53)"
      using pow2_add [of e 53] by (simp add: pow2_nat)
    ultimately have "?v = pow2 (e' + 52)" using lo by simp
    also have "\<dots> = of_int (2 ^ 52) * pow2 e'"
      using pow2_add [of e' 52] by (simp add: pow2_nat)
    finally show ?thesis by (intro exI [of _ "2 ^ 52"]) simp
  qed
  then obtain k where k: "0 < k" "?v = of_int k * pow2 e'" by blast
  have "?v / pow2 e' = of_int k"
    using pow2_pos [of e'] by (simp add: k(2))
  then have r: "round_half_even (?v / pow2 e') = k"
    by (simp only: round_half_even_int)
  from k(2) have vk: "of_int k * pow2 e' = ?v" by simp
  from pos q k(1) m(1) v show ?thesis
    unfolding round_double_def by (simp add: Let_def r vk pow2_nonzero)
qed

lemma round_double_neg: "round_double x = Fin y \<Longrightarrow> round_double (- x) = Fin (- y)"
  unfolding round_double_def by (auto simp: Let_def split: if_splits option.splits)

text \<open>Rounding leaves a rounded number as it is.\<close>

lemma round_double_idem:
  assumes "round_double x = Fin y"
  shows "round_double y = Fin y"
proof -
  from assms obtain e where x: "x \<noteq> 0" and q: "quantum \<bar>x\<bar> = Some e"
    by (auto simp: round_double_def split: if_splits option.splits)
  define m where "m = round_half_even (\<bar>x\<bar> / pow2 e)"
  from assms x q have m: "m \<noteq> 0" and v: "of_int m * pow2 e < 2 ^ 1024"
    and y: "y = (if 0 < x then 1 else - 1) * (of_int m * pow2 e)"
    by (auto simp: round_double_def Let_def m_def split: if_splits)
  note d = quantumD [OF q]
  from d(3) have "\<bar>x\<bar> / pow2 e < pow2 53"
    using pow2_add [of e 53] pow2_pos [of e] by (simp add: divide_less_eq mult.commute)
  then have "\<bar>x\<bar> / pow2 e < of_int (2 ^ 53)" by (simp add: pow2_nat)
  moreover have "0 \<le> \<bar>x\<bar> / pow2 e" using pow2_pos [of e] by (simp add: less_imp_le)
  ultimately have "0 \<le> m" "m \<le> 2 ^ 53"
    unfolding m_def by (rule round_half_even_le [rotated])+
  with m have "0 < m" by simp
  from round_double_grid [OF this \<open>m \<le> 2 ^ 53\<close> d(1) v]
  have g: "round_double (of_int m * pow2 e) = Fin (of_int m * pow2 e)" .
  show ?thesis
  proof (cases "0 < x")
    case True
    with y g show ?thesis by simp
  next
    case False
    with y round_double_neg [OF g] show ?thesis by simp
  qed
qed

lemma float64_round: "float64 (round_double x)"
  by (cases "round_double x") (simp_all add: float64_def round_double_idem)

lemma float64_Fin: "float64 (Fin y) = (round_double y = Fin y)"
  by (simp add: float64_def)

lemma round_1: "round_double 1 = Fin 1"
  by (rule round_double_pos [where e = "- 52" and m = 4503599627370496, THEN trans])
    (simp_all add: pow2_def round_half_even_def Let_def)

lemma round_100: "round_double 100 = Fin 100"
  by (rule round_double_pos [where e = "- 46" and m = 7036874417766400, THEN trans])
    (simp_all add: pow2_def round_half_even_def Let_def)

subsection \<open>The doubles are closed under the operations\<close>

lemma to_ext_float64: "to_ext v = Some z \<Longrightarrow> float64 z"
proof (cases v)
  case (Num r)
  then show "to_ext v = Some z \<Longrightarrow> float64 z" by (auto simp: float64_round)
qed (auto simp: float64_def)

lemma to_ext_of_ext: "float64 z \<Longrightarrow> to_ext (of_ext z) = Some z"
  by (cases z) (auto simp: float64_def round_double_def)

lemma float64_of_ext: "float64 z \<Longrightarrow> float64_cell (of_ext z)"
  by (cases z) (auto simp: float64_def float64_cell_def)

lemma float64_cell_float: "float64_cell v \<Longrightarrow> is_float_cell v"
  by (cases v) (simp_all add: float64_cell_def is_float_cell_def)

lemma float64_ext_div: "float64 x \<Longrightarrow> float64 y \<Longrightarrow> float64 (ext_div x y)"
  by (cases x; cases y) (simp_all add: float64_round, simp_all add: float64_def)

lemma float64_ext_sub: "float64 x \<Longrightarrow> float64 y \<Longrightarrow> float64 (ext_sub x y)"
  by (cases x; cases y) (simp_all add: float64_round, simp_all add: float64_def round_double_neg)

lemma float64_ext_mul: "float64 x \<Longrightarrow> float64 y \<Longrightarrow> float64 (ext_mul x y)"
  by (cases x; cases y) (simp_all add: float64_round, simp_all add: float64_def)

subsection \<open>One row of the change\<close>

lemma change_first: "change (v, Null) = Inr w \<Longrightarrow> w = Null"
  by (cases "to_ext v")
    (auto simp: change_def fdiv_def fsub_def lift_op_def split: sum.splits ext.splits,
      (case_tac a; simp)+)

lemma times_100_Null: "times_100 Null = Inr w \<Longrightarrow> w = Null"
  by (simp add: times_100_def fmul_def lift_op_def)

text \<open>
  The change of a row, times 100: the quotient of the two doubles is rounded, one is
  subtracted and the difference rounded, and its product with 100 is rounded.
\<close>

lemma change_value:
  assumes q: "change (c, p) = Inr q" and w: "times_100 q = Inr w"
    and x: "to_ext p = Some x" and y: "to_ext c = Some y"
  shows "w = of_ext (ext_mul (ext_sub (ext_div y x) (Fin 1)) (Fin 100))"
proof -
  note fx = to_ext_float64 [OF x] and fy = to_ext_float64 [OF y]
  have one: "float64 (Fin 1)" by (simp add: float64_Fin round_1)
  have d: "fdiv c p = Inr (of_ext (ext_div y x))"
    using x y by (simp add: fdiv_def lift_op_def)
  have "to_ext (of_ext (ext_div y x)) = Some (ext_div y x)"
    by (intro to_ext_of_ext float64_ext_div fx fy)
  then have "fsub (of_ext (ext_div y x)) (Num 1) = Inr (of_ext (ext_sub (ext_div y x) (Fin 1)))"
    by (simp add: fsub_def lift_op_def round_1)
  with d q have q': "q = of_ext (ext_sub (ext_div y x) (Fin 1))"
    by (simp add: change_def)
  have "to_ext q = Some (ext_sub (ext_div y x) (Fin 1))"
    unfolding q' by (intro to_ext_of_ext float64_ext_sub float64_ext_div fx fy one)
  with w show ?thesis
    by (simp add: times_100_def fmul_def lift_op_def round_100)
qed

lemma times_100_float64:
  assumes "times_100 q = Inr w"
  shows "float64_cell w"
proof -
  from assms obtain x where x: "to_ext q = Some x"
    by (cases "to_ext q") (simp_all add: times_100_def fmul_def lift_op_def)
  have "float64 (Fin 100)" by (simp add: float64_Fin round_100)
  with to_ext_float64 [OF x] have "float64 (ext_mul x (Fin 100))"
    by (intro float64_ext_mul)
  then have "float64_cell (of_ext (ext_mul x (Fin 100)))"
    by (rule float64_of_ext)
  moreover from assms x have "w = of_ext (ext_mul x (Fin 100))"
    by (simp add: times_100_def fmul_def lift_op_def round_100)
  ultimately show ?thesis by simp
qed

subsection \<open>The column of the changes\<close>

lemma price_change_column:
  assumes "pct_change vs = Inr ps" and "traverse times_100 ps = Inr cs"
  shows "length cs = length vs"
    and "list_all float64_cell cs"
    and "vs \<noteq> [] \<Longrightarrow> cs ! 0 = Null"
    and "Suc i < length vs \<Longrightarrow> vs ! i \<noteq> Null \<Longrightarrow> vs ! Suc i \<noteq> Null \<Longrightarrow>
         to_ext (vs ! i) = Some x \<Longrightarrow> to_ext (vs ! Suc i) = Some y \<Longrightarrow>
         cs ! Suc i = of_ext (ext_mul (ext_sub (ext_div y x) (Fin 1)) (Fin 100))"
proof -
  let ?data = "ffill vs"
  from assms(1) have tr: "traverse change (zip ?data (Null # ?data)) = Inr ps"
    by (simp add: pct_change_def Let_def)
  have len: "length (zip ?data (Null # ?data)) = length vs"
    by (simp add: ffill_def length_ffill_from)
  from traverse_nth [OF tr] len have lps: "length ps = length vs"
    and ch: "\<And>j. j < length vs \<Longrightarrow> change (zip ?data (Null # ?data) ! j) = Inr (ps ! j)"
    by auto
  from traverse_nth [OF assms(2)] lps have lcs: "length cs = length vs"
    and tm: "\<And>j. j < length vs \<Longrightarrow> times_100 (ps ! j) = Inr (cs ! j)"
    by auto
  show "length cs = length vs" by (rule lcs)
  show "list_all float64_cell cs"
    using assms(2) times_100_float64 by (rule traverse_all)
  show "cs ! 0 = Null" if "vs \<noteq> []"
  proof -
    from that have 0: "0 < length vs" by simp
    have "zip ?data (Null # ?data) ! 0 = (?data ! 0, Null)"
      using 0 by (simp add: ffill_def length_ffill_from)
    with ch [OF 0] have "ps ! 0 = Null"
      using change_first by metis
    with tm [OF 0] show ?thesis
      using times_100_Null by metis
  qed
  show "cs ! Suc i = of_ext (ext_mul (ext_sub (ext_div y x) (Fin 1)) (Fin 100))"
    if i: "Suc i < length vs" and p: "vs ! i \<noteq> Null" and c: "vs ! Suc i \<noteq> Null"
      and x: "to_ext (vs ! i) = Some x" and y: "to_ext (vs ! Suc i) = Some y"
  proof -
    from i have i': "i < length vs" by simp
    have d1: "?data ! Suc i = vs ! Suc i"
      using ffill_from_keeps [OF i c, of Null] by (simp add: ffill_def)
    have d0: "?data ! i = vs ! i"
      using ffill_from_keeps [OF i' p, of Null] by (simp add: ffill_def)
    have "zip ?data (Null # ?data) ! Suc i = (vs ! Suc i, vs ! i)"
      using i d0 d1 by (simp add: ffill_def length_ffill_from)
    with ch [OF i] have "change (vs ! Suc i, vs ! i) = Inr (ps ! Suc i)" by simp
    from change_value [OF this tm [OF i] x y] show ?thesis .
  qed
qed

lemma price_column_name: "coin @ '' Price'' \<noteq> c @ '' Price Change''"
proof
  assume "coin @ '' Price'' = c @ '' Price Change''"
  then have "rev (coin @ '' Price'') = rev (c @ '' Price Change'')" by simp
  then show False by simp
qed

lemma price_change_loop_frame:
  "price_change_loop coins df = Inr df' \<Longrightarrow>
   (\<And>c. c \<in> set coins \<Longrightarrow> name \<noteq> c @ '' Price Change'') \<Longrightarrow>
   map_of df' name = map_of df name"
proof (induction coins arbitrary: df)
  case Nil
  then show ?case by simp
next
  case (Cons c coins)
  from Cons.prems(1) obtain changes where
    rest: "price_change_loop coins (AList.update (c @ '' Price Change'') changes df) = Inr df'"
    by (auto split: option.splits sum.splits)
  have "map_of df' name = map_of (AList.update (c @ '' Price Change'') changes df) name"
    using Cons.IH [OF rest] Cons.prems(2) by simp
  also have "\<dots> = map_of df name"
    using Cons.prems(2) [of c] by (simp add: update_conv')
  finally show ?case .
qed

lemma price_change_loop_column:
  "price_change_loop coins df = Inr df' \<Longrightarrow> coin \<in> set coins \<Longrightarrow>
   map_of df (coin @ '' Price'') = Some vs \<Longrightarrow>
   \<exists>ps cs. pct_change vs = Inr ps \<and> traverse times_100 ps = Inr cs
     \<and> map_of df' (coin @ '' Price Change'') = Some cs"
proof (induction coins arbitrary: df)
  case Nil
  then show ?case by simp
next
  case (Cons c coins)
  from Cons.prems(1) obtain prices ps changes where
    prices: "map_of df (c @ '' Price'') = Some prices"
    and ps: "pct_change prices = Inr ps"
    and changes: "traverse times_100 ps = Inr changes"
    and rest: "price_change_loop coins (AList.update (c @ '' Price Change'') changes df) = Inr df'"
    by (auto split: option.splits sum.splits)
  let ?df1 = "AList.update (c @ '' Price Change'') changes df"
  show ?case
  proof (cases "coin \<in> set coins")
    case True
    have "map_of ?df1 (coin @ '' Price'') = Some vs"
      using Cons.prems(3) price_column_name [of coin c] by (simp add: update_conv')
    from Cons.IH [OF rest True this] show ?thesis .
  next
    case False
    with Cons.prems(2) have eq: "coin = c" by simp
    have "map_of df' (coin @ '' Price Change'') = map_of ?df1 (coin @ '' Price Change'')"
      using price_change_loop_frame [OF rest, of "coin @ '' Price Change''"] False by auto
    also have "\<dots> = Some changes"
      using eq by (simp add: update_conv')
    finally show ?thesis
      using prices ps changes Cons.prems(3) eq by auto
  qed
qed

subsection \<open>The computation returns\<close>

lemma float_of_ext: "is_float_cell (of_ext x)"
  by (cases x) (simp_all add: is_float_cell_def)

lemma lift_op_float:
  "is_float_cell a \<Longrightarrow> is_float_cell b \<Longrightarrow>
   \<exists>q. lift_op f a b = Inr q \<and> is_float_cell q"
  by (auto simp: is_float_cell_def [of a] is_float_cell_def [of b] lift_op_def float_of_ext)

lemma change_float:
  "is_float_cell a \<Longrightarrow> is_float_cell b \<Longrightarrow> \<exists>q. change (a, b) = Inr q \<and> is_float_cell q"
proof -
  assume a: "is_float_cell a" and b: "is_float_cell b"
  from lift_op_float [OF a b, of ext_div] obtain q where q: "fdiv a b = Inr q" "is_float_cell q"
    by (auto simp: fdiv_def)
  have "is_float_cell (Num 1)" by (simp add: is_float_cell_def)
  from lift_op_float [OF q(2) this, of ext_sub] q(1) show ?thesis
    by (auto simp: change_def fsub_def)
qed

lemma times_100_float:
  "is_float_cell q \<Longrightarrow> \<exists>w. times_100 q = Inr w \<and> is_float_cell w"
  using lift_op_float [of q "Num 100" ext_mul]
  by (simp add: times_100_def fmul_def is_float_cell_def)

lemma ffill_from_float:
  "list_all is_float_cell vs \<Longrightarrow> is_float_cell p \<Longrightarrow> list_all is_float_cell (ffill_from p vs)"
  by (induction vs arbitrary: p) auto

lemma pct_change_total:
  assumes "list_all is_float_cell vs"
  shows "\<exists>ps. pct_change vs = Inr ps \<and> list_all is_float_cell ps"
proof -
  have n: "is_float_cell Null" by (simp add: is_float_cell_def)
  with assms have d: "list_all is_float_cell (ffill vs)"
    by (simp add: ffill_def ffill_from_float)
  have "\<exists>q. change x = Inr q \<and> is_float_cell q" if "x \<in> set (zip (ffill vs) (Null # ffill vs))" for x
  proof -
    obtain a b where x: "x = (a, b)" by (cases x)
    with that have "fst x \<in> set (ffill vs)" "snd x \<in> set (Null # ffill vs)"
      by (auto dest: set_zip_leftD set_zip_rightD)
    with d n have "is_float_cell (fst x)" "is_float_cell (snd x)"
      by (auto simp: list_all_iff)
    from change_float [OF this] show ?thesis by simp
  qed
  from traverse_total [of "zip (ffill vs) (Null # ffill vs)" change is_float_cell, OF this]
  show ?thesis by (simp add: pct_change_def Let_def)
qed

lemma price_change_loop_total:
  "(\<And>c. c \<in> set coins \<Longrightarrow> \<exists>vs. map_of df (c @ '' Price'') = Some vs \<and> list_all is_float_cell vs)
   \<Longrightarrow> \<exists>df'. price_change_loop coins df = Inr df'"
proof (induction coins arbitrary: df)
  case Nil
  then show ?case by simp
next
  case (Cons c coins)
  from Cons.prems [of c] obtain vs where vs: "map_of df (c @ '' Price'') = Some vs"
    "list_all is_float_cell vs" by auto
  from pct_change_total [OF vs(2)] obtain ps where ps: "pct_change vs = Inr ps"
    "list_all is_float_cell ps" by auto
  from traverse_total [of ps times_100 is_float_cell] times_100_float ps(2)
  obtain cs where cs: "traverse times_100 ps = Inr cs"
    by (auto simp: list_all_iff)
  have "\<exists>ws. map_of (AList.update (c @ '' Price Change'') cs df) (d @ '' Price'') = Some ws
          \<and> list_all is_float_cell ws" if "d \<in> set coins" for d
    using Cons.prems [of d] that price_column_name [of d c] by (simp add: update_conv')
  from Cons.IH [OF this] vs ps cs show ?case by simp
qed

text \<open>
  The computation returns a frame when the frame has every configured coin's price
  column and the column holds numbers and missing values only.
\<close>

lemma calculate_price_change_succeeds:
  "(\<And>c. c \<in> set (CRYPTOCURRENCIES env) \<Longrightarrow>
      \<exists>vs. map_of df (c @ '' Price'') = Some vs \<and> list_all is_float_cell vs)
   \<Longrightarrow> \<exists>df'. calculate_price_change env df = Inr df'"
  unfolding calculate_price_change_def by (rule price_change_loop_total)

subsection \<open>A price that rises from 100 to 110\<close>

lemma round_10: "round_double 10 = Fin 10"
  by (rule round_double_pos [where e = "- 49" and m = 5629499534213120, THEN trans])
    (simp_all add: pow2_def round_half_even_def Let_def)

lemma round_110: "round_double 110 = Fin 110"
  by (rule round_double_pos [where e = "- 46" and m = 7740561859543040, THEN trans])
    (simp_all add: pow2_def round_half_even_def Let_def)

lemma round_11_10: "round_double (11 / 10) = Fin (2476979795053773 / 2251799813685248)"
  by (rule round_double_pos [where e = "- 52" and m = 4953959590107546, THEN trans])
    (simp_all add: pow2_def round_half_even_def Let_def)

lemma round_quotient: "round_double (2476979795053773 / 2251799813685248) = Fin (2476979795053773 / 2251799813685248)"
  by (rule round_double_pos [where e = "- 52" and m = 4953959590107546, THEN trans])
    (simp_all add: pow2_def round_half_even_def Let_def)

lemma round_difference: "round_double (225179981368525 / 2251799813685248) = Fin (225179981368525 / 2251799813685248)"
  by (rule round_double_pos [where e = "- 56" and m = 7205759403792800, THEN trans])
    (simp_all add: pow2_def round_half_even_def Let_def)

lemma round_product: "round_double (5629499534213125 / 562949953421312) = Fin (5629499534213125 / 562949953421312)"
  by (rule round_double_pos [where e = "- 49" and m = 5629499534213125, THEN trans])
    (simp_all add: pow2_def round_half_even_def Let_def)

lemma round_1_10: "round_double (1 / 10) = Fin (3602879701896397 / 36028797018963968)"
  by (rule round_double_pos [where e = "- 56" and m = 7205759403792794, THEN trans])
    (simp_all add: pow2_def round_half_even_def Let_def)

lemma round_tenth: "round_double (3602879701896397 / 36028797018963968) = Fin (3602879701896397 / 36028797018963968)"
  by (rule round_double_pos [where e = "- 56" and m = 7205759403792794, THEN trans])
    (simp_all add: pow2_def round_half_even_def Let_def)

lemma round_tenth_100: "round_double (90071992547409925 / 9007199254740992) = Fin 10"
  by (rule round_double_pos [where e = "- 49" and m = 5629499534213120, THEN trans])
    (simp_all add: pow2_def round_half_even_def Let_def)

text \<open>
  C4, the claim as it stands: the change after the prices 100 and 110 is
  \<open>(110 - 100) / 100 * 100\<close>, which is 10. The computation divides first, and the
  quotient 1.1 is no double: it returns \<open>10 + 5 / 2 ^ 49\<close>, the double
  10.000000000000009. (The formula of the claim with each of its operations rounded
  gives the double 10: in doubles the two formulas differ.)
\<close>

theorem calculate_price_change_counterexample:
  "calculate_price_change one_coin_env rising_prices
     = Inr (rising_prices @ [(''BTC Price Change'', [Null, Num (10 + 5 / 2 ^ 49)])])
   \<and> map_of rising_prices ''BTC Price'' = Some [Num 100, Num 110]
   \<and> Num (10 + 5 / 2 ^ 49) \<noteq> Num ((110 - 100) / 100 * 100)
   \<and> fsub (Num 110) (Num 100) = Inr (Num 10)
   \<and> fdiv (Num 10) (Num 100) = Inr (Num (3602879701896397 / 2 ^ 55))
   \<and> fmul (Num (3602879701896397 / 2 ^ 55)) (Num 100) = Inr (Num 10)"
proof -
  have a: "calculate_price_change one_coin_env rising_prices
     = Inr (rising_prices @ [(''BTC Price Change'', [Null, Num (10 + 5 / 2 ^ 49)])])"
    by (simp add: calculate_price_change_def one_coin_env_def example_env_def rising_prices_def
      pct_change_def ffill_def change_def fdiv_def fsub_def fmul_def lift_op_def times_100_def
      round_1 round_100 round_110 round_11_10 round_quotient round_difference round_product)
  have b: "map_of rising_prices ''BTC Price'' = Some [Num 100, Num 110]"
    by (simp add: rising_prices_def)
  have c: "Num (10 + 5 / 2 ^ 49) \<noteq> Num ((110 - 100) / 100 * 100)"
    by simp
  have d: "fsub (Num 110) (Num 100) = Inr (Num 10)"
    by (simp add: fsub_def lift_op_def round_100 round_110 round_10)
  have e: "fdiv (Num 10) (Num 100) = Inr (Num (3602879701896397 / 2 ^ 55))"
    by (simp add: fdiv_def lift_op_def round_10 round_100 round_1_10)
  have f: "fmul (Num (3602879701896397 / 2 ^ 55)) (Num 100) = Inr (Num 10)"
    by (simp add: fmul_def lift_op_def round_tenth round_100 round_tenth_100)
  from a b c d e f show ?thesis by (intro conjI)
qed

text \<open>
  C4, amended: when the frame has the price column of every configured coin and these
  columns hold doubles and missing values, \<open>calculate_price_change\<close> returns a
  frame that has for each configured coin the column \<open>coin Price Change\<close>, a column
  of doubles as long as the column \<open>coin Price\<close>. Its first row is null. In the row
  after two consecutive rows with the non-null prices \<open>x\<close> and \<open>y\<close> it holds
  \<open>(y / x - 1) * 100\<close> in the arithmetic of doubles: the quotient, the difference
  and the product are each rounded to the nearest double (and overflow to an
  infinity); a zero \<open>x\<close> gives an infinity, or not-a-number when \<open>y\<close> is zero too.
\<close>

theorem calculate_price_change_rows:
  assumes "\<And>c. c \<in> set (CRYPTOCURRENCIES env) \<Longrightarrow>
      \<exists>ws. map_of df (c @ '' Price'') = Some ws \<and> list_all float64_cell ws"
    and "coin \<in> set (CRYPTOCURRENCIES env)"
    and "map_of df (coin @ '' Price'') = Some vs"
  shows "\<exists>df' cs. calculate_price_change env df = Inr df'
     \<and> map_of df' (coin @ '' Price Change'') = Some cs
     \<and> length cs = length vs \<and> list_all float64_cell cs
     \<and> (vs \<noteq> [] \<longrightarrow> cs ! 0 = Null)
     \<and> (\<forall>i x y. Suc i < length vs \<and> vs ! i \<noteq> Null \<and> vs ! Suc i \<noteq> Null
            \<and> to_ext (vs ! i) = Some x \<and> to_ext (vs ! Suc i) = Some y \<longrightarrow>
          cs ! Suc i = of_ext (ext_mul (ext_sub (ext_div y x) (Fin 1)) (Fin 100)))"
proof -
  have "\<exists>ws. map_of df (c @ '' Price'') = Some ws \<and> list_all is_float_cell ws"
    if "c \<in> set (CRYPTOCURRENCIES env)" for c
    using assms(1) [OF that] by (auto simp: list_all_iff float64_cell_float)
  from calculate_price_change_succeeds [OF this] obtain df' where
    df': "calculate_price_change env df = Inr df'" by blast
  with assms(2,3) obtain ps cs where ps: "pct_change vs = Inr ps"
    and cs: "traverse times_100 ps = Inr cs"
    and col: "map_of df' (coin @ '' Price Change'') = Some cs"
    using price_change_loop_column [of "CRYPTOCURRENCIES env" df df' coin vs]
    by (auto simp: calculate_price_change_def)
  from price_change_column [OF ps cs] col df' show ?thesis
    by blast
qed

theorem calculate_price_change_rows_witness:
  "CRYPTOCURRENCIES one_coin_env = [''BTC'']
   \<and> map_of rising_prices ''BTC Price'' = Some [Num 100, Num 110]
   \<and> list_all float64_cell [Num 100, Num 110]
   \<and> (\<exists>df' cs. calculate_price_change one_coin_env rising_prices = Inr df'
         \<and> map_of df' ''BTC Price Change'' = Some cs
         \<and> length cs = 2 \<and> list_all float64_cell cs \<and> cs ! 0 = Null
         \<and> cs ! 1 = Num (10 + 5 / 2 ^ 49))"
proof -
  have h1: "\<exists>ws. map_of rising_prices (c @ '' Price'') = Some ws \<and> list_all float64_cell ws"
    if "c \<in> set (CRYPTOCURRENCIES one_coin_env)" for c
    using that
    by (simp add: one_coin_env_def example_env_def rising_prices_def float64_cell_def
        round_100 round_110)
  have h2: "''BTC'' \<in> set (CRYPTOCURRENCIES one_coin_env)"
    by (simp add: one_coin_env_def example_env_def)
  have h3: "map_of rising_prices (''BTC'' @ '' Price'') = Some [Num 100, Num 110]"
    by (simp add: rising_prices_def)
  from calculate_price_change_rows [where env = one_coin_env and df = rising_prices
      and coin = "''BTC''" and vs = "[Num 100, Num 110]", OF h1 h2 h3]
  obtain df' cs where r: "calculate_price_change one_coin_env rising_prices = Inr df'"
    "map_of df' (''BTC'' @ '' Price Change'') = Some cs"
    "length cs = length [Num 100, Num 110 :: cell]" "list_all float64_cell cs"
    "[Num 100, Num 110 :: cell] \<noteq> [] \<longrightarrow> cs ! 0 = Null"
    "\<forall>i x y. Suc i < length [Num 100, Num 110 :: cell]
        \<and> [Num 100, Num 110] ! i \<noteq> Null \<and> [Num 100, Num 110] ! Suc i \<noteq> Null
        \<and> to_ext ([Num 100, Num 110] ! i) = Some x \<and> to_ext ([Num 100, Num 110] ! Suc i) = Some y \<longrightarrow>
        cs ! Suc i = of_ext (ext_mul (ext_sub (ext_div y x) (Fin 1)) (Fin 100))"
    by blast
  from r(6) have "cs ! Suc 0 = of_ext (ext_mul (ext_sub (ext_div (Fin 110) (Fin 100)) (Fin 1)) (Fin 100))"
    by (simp add: round_100 round_110)
  then have "cs ! 1 = Num (10 + 5 / 2 ^ 49)"
    by (simp add: round_11_10 round_difference round_product)
  moreover have "CRYPTOCURRENCIES one_coin_env = [''BTC'']"
    by (simp add: one_coin_env_def example_env_def)
  moreover have "list_all float64_cell [Num 100, Num 110]"
    by (simp add: float64_cell_def round_100 round_110)
  ultimately show ?thesis
    using r(1-5) h3 by auto
qed

section \<open>Merging the series of two symbols\<close>

lemma df_rows_two: "df_rows [(n1, xs), (n2, ys)] = map (\<lambda>i. [xs ! i, ys ! i]) [0 ..< length xs]"
  by (simp add: df_rows_def nrows_def)

lemma df_rows_one: "df_rows [(n, ys)] = map (\<lambda>i. [ys ! i]) [0 ..< length ys]"
  by (simp add: df_rows_def nrows_def)

lemma left_rows:
  "length ps = length ds \<Longrightarrow>
   set (zip ds (df_rows [(n1, ds), (n2, ps)])) = {(k, [k, p]) | k p. (k, p) \<in> set (zip ds ps)}"
  by (auto simp: df_rows_two set_zip) 

lemma right_rows:
  "length ps = length ds \<Longrightarrow>
   set (zip ds (df_rows [(n, ps)])) = {(k, [p]) | k p. (k, p) \<in> set (zip ds ps)}"
  by (auto simp: df_rows_one set_zip)

lemma matching:
  "set (map snd (filter (\<lambda>p. fst p = k) prs)) = {v. (k, v) \<in> set prs}"
  by force

lemma in_zip_fst: "length ps = length ds \<Longrightarrow> k \<in> set ds \<longleftrightarrow> (\<exists>p. (k, p) \<in> set (zip ds ps))"
  by (metis in_set_impl_in_set_zip1 set_zip_leftD)


lemma set_merge_key:
  "set (merge_key left w L R k) =
     (if {v. (k, v) \<in> set L} = {} then
        (\<lambda>r. map (\<lambda>col. if fst col = ''Date'' then k else Null) left @ r) ` {v. (k, v) \<in> set R}
      else if {v. (k, v) \<in> set R} = {} then (\<lambda>l. l @ replicate w Null) ` {v. (k, v) \<in> set L}
      else {l @ r | l r. (k, l) \<in> set L \<and> (k, r) \<in> set R})"
proof -
  let ?ls = "map snd (filter (\<lambda>p. fst p = k) L)"
  let ?rs = "map snd (filter (\<lambda>p. fst p = k) R)"
  have e: "(?ls = []) = ({v. (k, v) \<in> set L} = {})" "(?rs = []) = ({v. (k, v) \<in> set R} = {})"
    by (simp_all only: matching [symmetric] set_empty)
  have m: "set (map f ?ls) = f ` {v. (k, v) \<in> set L}" "set (map f ?rs) = f ` {v. (k, v) \<in> set R}" for f
    by (metis matching set_map)+
  have c: "set (concat (map (\<lambda>l. map (\<lambda>r. l @ r) ?rs) ?ls))
             = {l @ r | l r. (k, l) \<in> set L \<and> (k, r) \<in> set R}"
    by force
  show ?thesis
    unfolding merge_key_def Let_def e by (simp only: if_distrib [of set] m c)
qed


lemma merge_key_two:
  assumes l1: "length ps1 = length ds1" and l2: "length ps2 = length ds2"
    and a: "a \<noteq> ''Date''"
  shows "set (merge_key [(''Date'', ds1), (a, ps1)] 1
              (zip ds1 (df_rows [(''Date'', ds1), (a, ps1)]))
              (zip ds2 (df_rows [(b, ps2)])) k)
         = {[k, p, q] | p q.
              (if k \<in> set ds1 then (k, p) \<in> set (zip ds1 ps1) else p = Null)
              \<and> (if k \<in> set ds2 then (k, q) \<in> set (zip ds2 ps2) else q = Null)
              \<and> k \<in> set ds1 \<union> set ds2}"
proof -
  have A: "{v. (k, v) \<in> set (zip ds1 (df_rows [(''Date'', ds1), (a, ps1)]))}
             = {[k, p] | p. (k, p) \<in> set (zip ds1 ps1)}"
    unfolding left_rows [OF l1] by blast
  have B: "{v. (k, v) \<in> set (zip ds2 (df_rows [(b, ps2)]))}
             = {[q] | q. (k, q) \<in> set (zip ds2 ps2)}"
    unfolding right_rows [OF l2] by blast
  have A': "(k, l) \<in> set (zip ds1 (df_rows [(''Date'', ds1), (a, ps1)]))
             \<longleftrightarrow> (\<exists>p. l = [k, p] \<and> (k, p) \<in> set (zip ds1 ps1))" for l
    unfolding left_rows [OF l1] by blast
  have B': "(k, r) \<in> set (zip ds2 (df_rows [(b, ps2)]))
             \<longleftrightarrow> (\<exists>q. r = [q] \<and> (k, q) \<in> set (zip ds2 ps2))" for r
    unfolding right_rows [OF l2] by blast
  have blank: "map (\<lambda>col. if fst col = ''Date'' then k else Null) [(''Date'', ds1), (a, ps1)]
                 = [k, Null]"
    using a by simp
  note z1 = in_zip_fst [OF l1, of k] and z2 = in_zip_fst [OF l2, of k]
  show ?thesis
  proof (cases "k \<in> set ds1")
    case True
    note k1 = this
    then have neA: "{[k, p] | p. (k, p) \<in> set (zip ds1 ps1)} \<noteq> {}"
      using z1 by blast
    show ?thesis
    proof (cases "k \<in> set ds2")
      case True
      then have neB: "{[q] | q. (k, q) \<in> set (zip ds2 ps2)} \<noteq> {}"
        using z2 by blast
      have C: "{l @ r | l r. (\<exists>p. l = [k, p] \<and> (k, p) \<in> set (zip ds1 ps1))
                    \<and> (\<exists>q. r = [q] \<and> (k, q) \<in> set (zip ds2 ps2))}
               = {[k, p, q] | p q. (k, p) \<in> set (zip ds1 ps1) \<and> (k, q) \<in> set (zip ds2 ps2)}"
      proof (intro set_eqI iffI)
        fix x
        assume "x \<in> {[k, p, q] | p q. (k, p) \<in> set (zip ds1 ps1)
                       \<and> (k, q) \<in> set (zip ds2 ps2)}"
        then obtain p q where "x = [k, p] @ [q]" "(k, p) \<in> set (zip ds1 ps1)"
          "(k, q) \<in> set (zip ds2 ps2)" by auto
        then show "x \<in> {l @ r | l r. (\<exists>p. l = [k, p] \<and> (k, p) \<in> set (zip ds1 ps1))
                    \<and> (\<exists>q. r = [q] \<and> (k, q) \<in> set (zip ds2 ps2))}"
          by blast
      qed auto
      show ?thesis
        unfolding set_merge_key A B A' B' C using neA neB k1 True
        by auto
    next
      case False
      then have eB: "{[q] | q. (k, q) \<in> set (zip ds2 ps2)} = {}"
        using z2 by blast
      show ?thesis
        unfolding set_merge_key A B using neA eB k1 False
        by auto
    qed
  next
    case False
    note k1 = this
    then have eA: "{[k, p] | p. (k, p) \<in> set (zip ds1 ps1)} = {}"
      using z1 by blast
    show ?thesis
    proof (cases "k \<in> set ds2")
      case True
      show ?thesis
        unfolding set_merge_key A B blank using eA k1 True
        by auto
    next
      case False
      then have eB: "{[q] | q. (k, q) \<in> set (zip ds2 ps2)} = {}"
        using z2 by blast
      show ?thesis
        unfolding set_merge_key A B using eA eB k1 False
        by auto
    qed
  qed
qed


lemma from_rows_three:
  "from_rows [n0, n1, n2] rs
     = [(n0, map (\<lambda>r. r ! 0) rs), (n1, map (\<lambda>r. r ! 1) rs), (n2, map (\<lambda>r. r ! 2) rs)]"
  by (simp add: from_rows_def upt_rec numeral_2_eq_2)

lemma merge_names_two:
  "a \<noteq> ''Date'' \<Longrightarrow> b \<noteq> ''Date'' \<Longrightarrow>
   merge_names [(''Date'', ds1), (a, ps1)] [(''Date'', ds2), (b, ps2)]
     = [''Date'', if a = b then a @ ''_x'' else a, if a = b then b @ ''_y'' else b]"
  by (auto simp: merge_names_def)

lemma merge_outer_two:
  assumes "a \<noteq> ''Date''" and "b \<noteq> ''Date''"
  shows "merge_outer [(''Date'', ds1), (a, ps1)] [(''Date'', ds2), (b, ps2)]
     = Inr (from_rows [''Date'', if a = b then a @ ''_x'' else a, if a = b then b @ ''_y'' else b]
         (concat (map (merge_key [(''Date'', ds1), (a, ps1)] 1
              (zip ds1 (df_rows [(''Date'', ds1), (a, ps1)]))
              (zip ds2 (df_rows [(b, ps2)])))
            (remdups (sort_key date_ord (ds1 @ ds2))))))"
  using assms by (simp add: merge_outer_def Let_def merge_names_two)

lemma series_lengths: "series env data field = Inr (ds, ps) \<Longrightarrow> length ps = length ds"
  by (auto simp: series_def split: sum.splits dest!: traverse_nth)

lemma fetch_series_lengths:
  "fetch_series env url field = Inr (ds, ps) \<Longrightarrow> length ps = length ds"
  by (auto simp: fetch_series_def split: sum.splits dest: series_lengths)

lemma accumulate_two_series:
  assumes ne: "ds1 \<noteq> []"
    and l1: "length ps1 = length ds1" and l2: "length ps2 = length ds2"
    and a: "a \<noteq> ''Date''" and b: "b \<noteq> ''Date''"
  shows "\<exists>ds pa pb.
     accumulate [(''Date'', ds1), (a, ps1)] [(''Date'', ds2), (b, ps2)]
       = Inr [(''Date'', ds), (if a = b then a @ ''_x'' else a, pa),
              (if a = b then b @ ''_y'' else b, pb)]
     \<and> length pa = length ds \<and> length pb = length ds
     \<and> set ds = set ds1 \<union> set ds2
     \<and> (\<forall>i<length ds.
          (if ds ! i \<in> set ds1 then (ds ! i, pa ! i) \<in> set (zip ds1 ps1) else pa ! i = Null)
          \<and> (if ds ! i \<in> set ds2 then (ds ! i, pb ! i) \<in> set (zip ds2 ps2)
               else pb ! i = Null))"
proof -
  let ?left = "[(''Date'', ds1), (a, ps1)]"
  let ?mk = "merge_key ?left 1 (zip ds1 (df_rows ?left)) (zip ds2 (df_rows [(b, ps2)]))"
  let ?keys = "remdups (sort_key date_ord (ds1 @ ds2))"
  let ?rows = "concat (map ?mk ?keys)"
  have keys: "set ?keys = set ds1 \<union> set ds2" by simp
  have rows: "set ?rows = {[k, p, q] | k p q.
              (if k \<in> set ds1 then (k, p) \<in> set (zip ds1 ps1) else p = Null)
              \<and> (if k \<in> set ds2 then (k, q) \<in> set (zip ds2 ps2) else q = Null)
              \<and> k \<in> set ds1 \<union> set ds2}"
    unfolding set_concat set_map image_image merge_key_two [OF l1 l2 a] keys by blast
  have acc: "accumulate ?left [(''Date'', ds2), (b, ps2)]
     = Inr [(''Date'', map (\<lambda>r. r ! 0) ?rows),
            (if a = b then a @ ''_x'' else a, map (\<lambda>r. r ! 1) ?rows),
            (if a = b then b @ ''_y'' else b, map (\<lambda>r. r ! 2) ?rows)]"
    using ne by (simp add: accumulate_def df_empty_def nrows_def merge_outer_two [OF a b]
        from_rows_three del: set_concat)
  have dates: "set (map (\<lambda>r. r ! 0) ?rows) = set ds1 \<union> set ds2"
  proof (intro set_eqI iffI)
    fix k
    assume "k \<in> set (map (\<lambda>r. r ! 0) ?rows)"
    then obtain r where "r \<in> set ?rows" "k = r ! 0" by auto
    then show "k \<in> set ds1 \<union> set ds2" unfolding rows by auto
  next
    fix k
    assume k: "k \<in> set ds1 \<union> set ds2"
    obtain p where p: "if k \<in> set ds1 then (k, p) \<in> set (zip ds1 ps1) else p = Null"
      using in_zip_fst [OF l1, of k] by (cases "k \<in> set ds1") auto
    obtain q where q: "if k \<in> set ds2 then (k, q) \<in> set (zip ds2 ps2) else q = Null"
      using in_zip_fst [OF l2, of k] by (cases "k \<in> set ds2") auto
    from k p q have "[k, p, q] \<in> set ?rows" unfolding rows by blast
    then have "[k, p, q] ! 0 \<in> (\<lambda>r. r ! 0) ` set ?rows" by (rule imageI)
    then show "k \<in> set (map (\<lambda>r. r ! 0) ?rows)" by simp
  qed
  have each: "(if map (\<lambda>r. r ! 0) ?rows ! i \<in> set ds1
        then (map (\<lambda>r. r ! 0) ?rows ! i, map (\<lambda>r. r ! 1) ?rows ! i) \<in> set (zip ds1 ps1)
        else map (\<lambda>r. r ! 1) ?rows ! i = Null)
     \<and> (if map (\<lambda>r. r ! 0) ?rows ! i \<in> set ds2
        then (map (\<lambda>r. r ! 0) ?rows ! i, map (\<lambda>r. r ! 2) ?rows ! i) \<in> set (zip ds2 ps2)
        else map (\<lambda>r. r ! 2) ?rows ! i = Null)"
    if i: "i < length ?rows" for i
  proof -
    from i have "?rows ! i \<in> set ?rows" by (rule nth_mem)
    then obtain k p q where r: "?rows ! i = [k, p, q]"
      and p: "if k \<in> set ds1 then (k, p) \<in> set (zip ds1 ps1) else p = Null"
      and q: "if k \<in> set ds2 then (k, q) \<in> set (zip ds2 ps2) else q = Null"
      unfolding rows by blast
    from i r p q show ?thesis by (simp only: nth_map) simp
  qed
  show ?thesis
    apply (rule exI [of _ "map (\<lambda>r. r ! 0) ?rows"])
    apply (rule exI [of _ "map (\<lambda>r. r ! 1) ?rows"])
    apply (rule exI [of _ "map (\<lambda>r. r ! 2) ?rows"])
    apply (intro conjI)
        apply (rule acc)
       apply simp
      apply simp
     apply (rule dates)
    apply (intro allI impI)
    apply (rule each)
    apply simp
    done
qed

lemma column_not_Date: "s @ '' Price'' \<noteq> ''Date''" "s @ '' Volume'' \<noteq> ''Date''"
proof -
  have "rev (s @ '' Price'') \<noteq> rev ''Date''" "rev (s @ '' Volume'') \<noteq> rev ''Date''"
    by simp_all
  then show "s @ '' Price'' \<noteq> ''Date''" "s @ '' Volume'' \<noteq> ''Date''"
    by fastforce+
qed

text \<open>
  Two passes of the loop, the first on the empty frame: when both requests give a
  series and the first series is not empty, both URLs have been requested and the
  frame is the merge of the two series.
\<close>

lemma fetch_loop_two:
  assumes f1: "fetch_series env u1 field = Inr (ds1, ps1)"
    and f2: "fetch_series env u2 field = Inr (ds2, ps2)"
    and ne: "ds1 \<noteq> []"
    and a: "s1 @ col \<noteq> ''Date''" and b: "s2 @ col \<noteq> ''Date''"
  shows "\<exists>ds pa pb.
     fetch_loop env field col [(u1, s1), (u2, s2)] [] reqs
       = (Inr [(''Date'', ds),
               (if s1 = s2 then s1 @ col @ ''_x'' else s1 @ col, pa),
               (if s1 = s2 then s2 @ col @ ''_y'' else s2 @ col, pb)], reqs @ [u1, u2])
     \<and> union_with_nulls ds1 ps1 ds2 ps2 ds pa pb"
proof -
  note l1 = fetch_series_lengths [OF f1] and l2 = fetch_series_lengths [OF f2]
  have first: "fetch_symbol env field col u1 s1 [] = Inr [(''Date'', ds1), (s1 @ col, ps1)]"
    using f1 by (simp add: fetch_symbol_def accumulate_def df_empty_def)
  have second: "fetch_symbol env field col u2 s2 [(''Date'', ds1), (s1 @ col, ps1)]
      = accumulate [(''Date'', ds1), (s1 @ col, ps1)] [(''Date'', ds2), (s2 @ col, ps2)]"
    using f2 by (simp add: fetch_symbol_def)
  from accumulate_two_series [OF ne l1 l2 a b] obtain ds pa pb where
    acc: "accumulate [(''Date'', ds1), (s1 @ col, ps1)] [(''Date'', ds2), (s2 @ col, ps2)]
       = Inr [(''Date'', ds), (if s1 @ col = s2 @ col then (s1 @ col) @ ''_x'' else s1 @ col, pa),
              (if s1 @ col = s2 @ col then (s2 @ col) @ ''_y'' else s2 @ col, pb)]"
    and len: "length pa = length ds" "length pb = length ds"
    and dates: "set ds = set ds1 \<union> set ds2"
    and each: "\<forall>i<length ds.
          (if ds ! i \<in> set ds1 then (ds ! i, pa ! i) \<in> set (zip ds1 ps1) else pa ! i = Null)
          \<and> (if ds ! i \<in> set ds2 then (ds ! i, pb ! i) \<in> set (zip ds2 ps2)
               else pb ! i = Null)"
    by blast
  have u: "union_with_nulls ds1 ps1 ds2 ps2 ds pa pb"
    unfolding union_with_nulls_def list_all_iff using len dates each by simp
  have "fetch_loop env field col [(u1, s1), (u2, s2)] [] reqs
       = (Inr [(''Date'', ds),
               (if s1 = s2 then s1 @ col @ ''_x'' else s1 @ col, pa),
               (if s1 = s2 then s2 @ col @ ''_y'' else s2 @ col, pb)], reqs @ [u1, u2])"
    by (simp add: first second acc)
  with u show ?thesis by blast
qed

lemma example_fetch_series:
  "fetch_series history_env ''u1'' ''close''
     = Inr ([Date 1000000, Date 2000000], [Num 10, Num 20])"
  "fetch_series history_env ''u2'' ''close''
     = Inr ([Date 2000000, Date 3000000], [Num 7, Num 8])"
  "fetch_series history_env (histoday_url history_env ''BTC'' 2000 360000) ''volumeto''
     = Inr ([Date 1000000, Date 2000000], [Num 10, Num 20])"
  "fetch_series history_env (histoday_url history_env ''ETH'' 2000 360000) ''volumeto''
     = Inr ([Date 2000000, Date 3000000], [Num 7, Num 8])"
  by (simp_all add: fetch_series_def history_env_def example_env_def history_body_def
      histoday_url_def raise_for_status_def response_json_def series_def subscript_object
      py_iter_def entry_time_def entry_value_def py_fromtimestamp_def json_cell_def)

text \<open>
  C5: when \<open>fetch_price_history\<close> is called for two symbols, or
  \<open>fetch_trading_volumes\<close> for two coins, both requests give a series and the first
  series is not empty, the function requests the two URLs and returns a frame with
  the date column and one column for each symbol, which is the merge of the two
  series as the specification says it: the set of its dates is the union of the
  dates of the two series, and in each row the column of a symbol holds a value
  that the symbol has for the date of the row, or null when the symbol has no data
  for that date.
\<close>

theorem fetch_merges_two_series:
  "(fetch_series env u1 ''close'' = Inr (ds1, ps1)
      \<and> fetch_series env u2 ''close'' = Inr (ds2, ps2) \<and> ds1 \<noteq> []
    \<longrightarrow> (\<exists>ds pa pb.
          fetch_price_history env [u1, u2] [s1, s2] reqs
            = (Inr [(''Date'', ds),
                    (if s1 = s2 then s1 @ '' Price_x'' else s1 @ '' Price'', pa),
                    (if s1 = s2 then s2 @ '' Price_y'' else s2 @ '' Price'', pb)],
               reqs @ [u1, u2])
          \<and> union_with_nulls ds1 ps1 ds2 ps2 ds pa pb))
   \<and> (fetch_series env (histoday_url env s1 limit end_timestamp) ''volumeto'' = Inr (ds1, ps1)
      \<and> fetch_series env (histoday_url env s2 limit end_timestamp) ''volumeto'' = Inr (ds2, ps2)
      \<and> ds1 \<noteq> []
    \<longrightarrow> (\<exists>ds pa pb.
          fetch_trading_volumes env [s1, s2] limit end_timestamp reqs
            = (Inr [(''Date'', ds),
                    (if s1 = s2 then s1 @ '' Volume_x'' else s1 @ '' Volume'', pa),
                    (if s1 = s2 then s2 @ '' Volume_y'' else s2 @ '' Volume'', pb)],
               reqs @ [histoday_url env s1 limit end_timestamp,
                       histoday_url env s2 limit end_timestamp])
          \<and> union_with_nulls ds1 ps1 ds2 ps2 ds pa pb))"
proof (intro conjI impI)
  assume "fetch_series env u1 ''close'' = Inr (ds1, ps1)
      \<and> fetch_series env u2 ''close'' = Inr (ds2, ps2) \<and> ds1 \<noteq> []"
  then have f: "fetch_series env u1 ''close'' = Inr (ds1, ps1)"
    "fetch_series env u2 ''close'' = Inr (ds2, ps2)" "ds1 \<noteq> []"
    by simp_all
  from fetch_loop_two [OF f column_not_Date(1) column_not_Date(1), of s1 s2 reqs]
  show "\<exists>ds pa pb.
          fetch_price_history env [u1, u2] [s1, s2] reqs
            = (Inr [(''Date'', ds),
                    (if s1 = s2 then s1 @ '' Price_x'' else s1 @ '' Price'', pa),
                    (if s1 = s2 then s2 @ '' Price_y'' else s2 @ '' Price'', pb)],
               reqs @ [u1, u2])
          \<and> union_with_nulls ds1 ps1 ds2 ps2 ds pa pb"
    unfolding fetch_price_history_def by (cases "s1 = s2") (simp_all del: fetch_loop.simps)
next
  assume "fetch_series env (histoday_url env s1 limit end_timestamp) ''volumeto'' = Inr (ds1, ps1)
      \<and> fetch_series env (histoday_url env s2 limit end_timestamp) ''volumeto'' = Inr (ds2, ps2)
      \<and> ds1 \<noteq> []"
  then have f: "fetch_series env (histoday_url env s1 limit end_timestamp) ''volumeto''
        = Inr (ds1, ps1)"
    "fetch_series env (histoday_url env s2 limit end_timestamp) ''volumeto'' = Inr (ds2, ps2)"
    "ds1 \<noteq> []"
    by simp_all
  from fetch_loop_two [OF f column_not_Date(2) column_not_Date(2), of s1 s2 reqs]
  show "\<exists>ds pa pb.
          fetch_trading_volumes env [s1, s2] limit end_timestamp reqs
            = (Inr [(''Date'', ds),
                    (if s1 = s2 then s1 @ '' Volume_x'' else s1 @ '' Volume'', pa),
                    (if s1 = s2 then s2 @ '' Volume_y'' else s2 @ '' Volume'', pb)],
               reqs @ [histoday_url env s1 limit end_timestamp,
                       histoday_url env s2 limit end_timestamp])
          \<and> union_with_nulls ds1 ps1 ds2 ps2 ds pa pb"
    unfolding fetch_trading_volumes_def by (cases "s1 = s2") (simp_all del: fetch_loop.simps)
qed

lemma example_accumulate:
  "accumulate [(''Date'', [Date 1000000, Date 2000000]), (''BTC Price'', [Num 10, Num 20])]
     [(''Date'', [Date 2000000, Date 3000000]), (''ETH Price'', [Num 7, Num 8])]
   = Inr [(''Date'', [Date 1000000, Date 2000000, Date 3000000]),
          (''BTC Price'', [Num 10, Num 20, Null]), (''ETH Price'', [Null, Num 7, Num 8])]"
  "accumulate [(''Date'', [Date 1000000, Date 2000000]), (''BTC Volume'', [Num 10, Num 20])]
     [(''Date'', [Date 2000000, Date 3000000]), (''ETH Volume'', [Num 7, Num 8])]
   = Inr [(''Date'', [Date 1000000, Date 2000000, Date 3000000]),
          (''BTC Volume'', [Num 10, Num 20, Null]), (''ETH Volume'', [Null, Num 7, Num 8])]"
  by (simp_all add: accumulate_def df_empty_def nrows_def merge_outer_def Let_def
      merge_names_def df_rows_def upt_rec date_ord_def merge_key_def from_rows_def
      numeral_2_eq_2)

lemma example_fetch_price_history:
  "fetch_price_history history_env [''u1'', ''u2''] [''BTC'', ''ETH''] []
   = (Inr [(''Date'', [Date 1000000, Date 2000000, Date 3000000]),
           (''BTC Price'', [Num 10, Num 20, Null]), (''ETH Price'', [Null, Num 7, Num 8])],
      [''u1'', ''u2''])"
proof -
  have first: "fetch_symbol history_env ''close'' '' Price'' ''u1'' ''BTC'' []
      = Inr [(''Date'', [Date 1000000, Date 2000000]), (''BTC Price'', [Num 10, Num 20])]"
    by (simp add: fetch_symbol_def example_fetch_series accumulate_def df_empty_def)
  have second: "fetch_symbol history_env ''close'' '' Price'' ''u2'' ''ETH''
        [(''Date'', [Date 1000000, Date 2000000]), (''BTC Price'', [Num 10, Num 20])]
      = Inr [(''Date'', [Date 1000000, Date 2000000, Date 3000000]),
             (''BTC Price'', [Num 10, Num 20, Null]), (''ETH Price'', [Null, Num 7, Num 8])]"
    using example_accumulate(1) by (simp add: fetch_symbol_def example_fetch_series)
  show ?thesis
    by (simp add: fetch_price_history_def first second)
qed

lemma example_fetch_trading_volumes:
  "fetch_trading_volumes history_env [''BTC'', ''ETH''] 2000 360000 []
   = (Inr [(''Date'', [Date 1000000, Date 2000000, Date 3000000]),
           (''BTC Volume'', [Num 10, Num 20, Null]), (''ETH Volume'', [Null, Num 7, Num 8])],
      [histoday_url history_env ''BTC'' 2000 360000,
       histoday_url history_env ''ETH'' 2000 360000])"
proof -
  have first: "fetch_symbol history_env ''volumeto'' '' Volume''
        (histoday_url history_env ''BTC'' 2000 360000) ''BTC'' []
      = Inr [(''Date'', [Date 1000000, Date 2000000]), (''BTC Volume'', [Num 10, Num 20])]"
    by (simp add: fetch_symbol_def example_fetch_series accumulate_def df_empty_def)
  have second: "fetch_symbol history_env ''volumeto'' '' Volume''
        (histoday_url history_env ''ETH'' 2000 360000) ''ETH''
        [(''Date'', [Date 1000000, Date 2000000]), (''BTC Volume'', [Num 10, Num 20])]
      = Inr [(''Date'', [Date 1000000, Date 2000000, Date 3000000]),
             (''BTC Volume'', [Num 10, Num 20, Null]), (''ETH Volume'', [Null, Num 7, Num 8])]"
    using example_accumulate(2) by (simp add: fetch_symbol_def example_fetch_series)
  show ?thesis
    by (simp add: fetch_trading_volumes_def first second)
qed

theorem fetch_merges_two_series_witness:
  "fetch_price_history history_env [''u1'', ''u2''] [''BTC'', ''ETH''] []
     = (Inr [(''Date'', [Date 1000000, Date 2000000, Date 3000000]),
             (''BTC Price'', [Num 10, Num 20, Null]), (''ETH Price'', [Null, Num 7, Num 8])],
        [''u1'', ''u2''])
   \<and> fetch_trading_volumes history_env [''BTC'', ''ETH''] 2000 360000 []
     = (Inr [(''Date'', [Date 1000000, Date 2000000, Date 3000000]),
             (''BTC Volume'', [Num 10, Num 20, Null]), (''ETH Volume'', [Null, Num 7, Num 8])],
        [histoday_url history_env ''BTC'' 2000 360000,
         histoday_url history_env ''ETH'' 2000 360000])
   \<and> union_with_nulls [Date 1000000, Date 2000000] [Num 10, Num 20]
         [Date 2000000, Date 3000000] [Num 7, Num 8]
         [Date 1000000, Date 2000000, Date 3000000] [Num 10, Num 20, Null] [Null, Num 7, Num 8]"
proof -
  have h: "[Date 1000000, Date 2000000] \<noteq> []" by simp
  note t = fetch_merges_two_series [where env = history_env and ?s1.0 = "''BTC''"
      and ?s2.0 = "''ETH''" and reqs = "[]" and ?ds1.0 = "[Date 1000000, Date 2000000]"
      and ?ps1.0 = "[Num 10, Num 20]" and ?ds2.0 = "[Date 2000000, Date 3000000]"
      and ?ps2.0 = "[Num 7, Num 8]" and ?u1.0 = "''u1''" and ?u2.0 = "''u2''"
      and limit = 2000 and end_timestamp = 360000]
  from t [THEN conjunct1, rule_format] example_fetch_series(1,2) h
  obtain ds pa pb where
    p: "fetch_price_history history_env [''u1'', ''u2''] [''BTC'', ''ETH''] []
          = (Inr [(''Date'', ds), (''BTC Price'', pa), (''ETH Price'', pb)], [''u1'', ''u2''])"
    and u: "union_with_nulls [Date 1000000, Date 2000000] [Num 10, Num 20]
         [Date 2000000, Date 3000000] [Num 7, Num 8] ds pa pb"
    by auto
  from t [THEN conjunct2, rule_format] example_fetch_series(3,4) h
  obtain ds' pa' pb' where
    v: "fetch_trading_volumes history_env [''BTC'', ''ETH''] 2000 360000 []
          = (Inr [(''Date'', ds'), (''BTC Volume'', pa'), (''ETH Volume'', pb')],
             [histoday_url history_env ''BTC'' 2000 360000,
              histoday_url history_env ''ETH'' 2000 360000])"
    by auto
  from p u have "union_with_nulls [Date 1000000, Date 2000000] [Num 10, Num 20]
         [Date 2000000, Date 3000000] [Num 7, Num 8]
         [Date 1000000, Date 2000000, Date 3000000] [Num 10, Num 20, Null] [Null, Num 7, Num 8]"
    by (simp add: example_fetch_price_history)
  with v show ?thesis
    by (simp add: example_fetch_price_history example_fetch_trading_volumes)
qed
end
